theory Spec2Isabelle
  imports Main "HOL-Library.Word" "HOL-Library.Sublist"
begin

section \<open>The catalog of an organisation (pkg/updater/org\_config.go)\<close>

subsection \<open>Data\<close>

type_synonym bytes = "8 word list"

text \<open>\<^verbatim>\<open>type Package struct\<close>: a downloadable package. \<^verbatim>\<open>Size\<close> is an \<^verbatim>\<open>int64\<close>.\<close>

record Package =
  Name :: string
  Version :: string
  SHA256 :: string
  URL :: string
  Size :: "64 word"
  Platform :: string
  Arch :: string

record catalog =
  Packages :: "Package list"

text \<open>
  A Go channel of \<^verbatim>\<open>struct{}\<close> on which nothing is ever sent: the only thing that can
  happen to it is \<^verbatim>\<open>close\<close>. A receive is ready exactly when the channel is closed, and
  closing a closed channel panics.
\<close>

datatype chan = Unclosed | Closed

fun close :: "chan \<Rightarrow> chan option" where
  "close Unclosed = Some Closed"
| "close Closed = None"

text \<open>
  \<^verbatim>\<open>type orgConfig struct\<close>. The mutex \<^verbatim>\<open>m\<close> only serialises the accesses to
  \<^verbatim>\<open>catalog\<close>; the operations below are the atomic steps it protects. The client \<^verbatim>\<open>rc\<close>
  is used for the subscription alone. \<^verbatim>\<open>catalogReceivedSync\<close> is a \<^verbatim>\<open>sync.Once\<close>: the
  flag says whether its action has run. The latch of the catalog is the channel
  \<^verbatim>\<open>catalogReceived\<close>: the latch is open when the channel is closed.
\<close>

record orgConfig =
  catalogReceived :: chan
  catalogReceivedSync :: bool
  catalog :: catalog

text \<open>Errors. \<^verbatim>\<open>Wrap msg err\<close> is \<^verbatim>\<open>fmt.Errorf("msg: %w", err)\<close>.\<close>

datatype error =
    Canceled
  | DeadlineExceeded
  | ErrorString string
  | Wrap string error
  | PackageNotFound string string "Package list"
  | PayloadTooLarge
  | PayloadMalicious

text \<open>
  A \<^verbatim>\<open>context.Context\<close> as the wait sees it: \<^verbatim>\<open>ctx.Err()\<close> is nil as long as
  \<^verbatim>\<open>ctx.Done()\<close> is not closed, and the reason of the cancellation afterwards.
\<close>

datatype ctx = Ctx (ctx_Err: "error option")

definition ctx_Done :: "ctx \<Rightarrow> chan" where
  "ctx_Done ctx = (case ctx_Err ctx of None \<Rightarrow> Unclosed | Some _ \<Rightarrow> Closed)"

text \<open>
  Modelled from the spec: the acknowledgement states of the remote-config protocol
  (\<^verbatim>\<open>state.ApplyStatus\<close>, declared in pkg/remoteconfig/state, which is not among the
  sources): a reply is \<^verbatim>\<open>Acknowledged\<close> or \<^verbatim>\<open>Error\<close> with a message.
\<close>

datatype ApplyState = ApplyStateAcknowledged | ApplyStateError

record ApplyStatus =
  State :: ApplyState
  Error :: string

record RawConfig =
  Config :: bytes

text \<open>
  \<^verbatim>\<open>json.Unmarshal(data, &v)\<close> on a zero-valued \<^verbatim>\<open>catalog\<close> is a parameter of the
  model: it gives the error (its \<^verbatim>\<open>Error()\<close> text), if any, and the value left in
  \<^verbatim>\<open>v\<close>.
\<close>

type_synonym unmarshal = "bytes \<Rightarrow> string option \<times> catalog"

subsection \<open>Operations\<close>

definition newOrgConfig :: orgConfig where
  "newOrgConfig =
     \<lparr>catalogReceived = Unclosed, catalogReceivedSync = False, catalog = \<lparr>Packages = []\<rparr>\<rparr>"

text \<open>
  \<^verbatim>\<open>select { case <-ctx.Done(): return ctx.Err(); case <-c.catalogReceived: return nil }\<close>.
  With no case ready the select blocks: the result is \<open>None\<close>. With both ready Go
  picks one of them at random: \<open>pick_ctx\<close> is that choice.
\<close>

definition waitForCatalog :: "bool \<Rightarrow> ctx \<Rightarrow> orgConfig \<Rightarrow> error option option" where
  "waitForCatalog pick_ctx ctx c =
     (case (ctx_Done ctx, catalogReceived c) of
        (Unclosed, Unclosed) \<Rightarrow> None
      | (Closed, Unclosed) \<Rightarrow> Some (ctx_Err ctx)
      | (Unclosed, Closed) \<Rightarrow> Some None
      | (Closed, Closed) \<Rightarrow> if pick_ctx then Some (ctx_Err ctx) else Some None)"

text \<open>The loop of \<^verbatim>\<open>GetPackage\<close> over \<^verbatim>\<open>c.catalog.Packages\<close>.\<close>

fun findPackage :: "Package list \<Rightarrow> string \<Rightarrow> string \<Rightarrow> Package option" where
  "findPackage [] pkg version = None"
| "findPackage (p # ps) pkg version =
     (if Name p = pkg \<and> Version p = version then Some p else findPackage ps pkg version)"

definition GetPackage ::
  "bool \<Rightarrow> ctx \<Rightarrow> orgConfig \<Rightarrow> string \<Rightarrow> string \<Rightarrow> (error + Package) option" where
  "GetPackage pick_ctx ctx c pkg version =
     (case waitForCatalog pick_ctx ctx c of
        None \<Rightarrow> None
      | Some (Some err) \<Rightarrow> Some (Inl (Wrap ''context canceled while waiting for catalog'' err))
      | Some None \<Rightarrow>
          (case findPackage (Packages (catalog c)) pkg version of
             Some p \<Rightarrow> Some (Inr p)
           | None \<Rightarrow> Some (Inl (PackageNotFound pkg version (Packages (catalog c))))))"

text \<open>
  \<^verbatim>\<open>c.catalogReceivedSync.Do(func() { close(c.catalogReceived) })\<close>: the action runs
  unless the flag is set; \<open>None\<close> is the panic of closing a closed channel.
\<close>

definition closeCatalogReceivedOnce :: "orgConfig \<Rightarrow> orgConfig option" where
  "closeCatalogReceivedOnce c =
     (if catalogReceivedSync c then Some c
      else (case close (catalogReceived c) of
              None \<Rightarrow> None
            | Some ch \<Rightarrow> Some (c\<lparr>catalogReceived := ch, catalogReceivedSync := True\<rparr>)))"

text \<open>
  The first loop of \<^verbatim>\<open>onCatalogUpdate\<close>, over the configs in the order the
  \<^verbatim>\<open>range\<close> over the map yields them. It stops at the first config that does not decode,
  with the reply sent for it.
\<close>

fun mergeConfigs ::
  "unmarshal \<Rightarrow> (string \<times> RawConfig) list \<Rightarrow> catalog \<Rightarrow> (string \<times> ApplyStatus) + catalog" where
  "mergeConfigs Unmarshal [] mergedCatalog = Inr mergedCatalog"
| "mergeConfigs Unmarshal ((configPath, config) # rest) mergedCatalog =
     (case Unmarshal (Config config) of
        (Some err, _) \<Rightarrow> Inl (configPath, \<lparr>State = ApplyStateError, Error = err\<rparr>)
      | (None, cat) \<Rightarrow>
          mergeConfigs Unmarshal rest
            (mergedCatalog\<lparr>Packages := Packages mergedCatalog @ Packages cat\<rparr>))"

text \<open>
  \<^verbatim>\<open>onCatalogUpdate(catalogConfigs, applyStateCallback)\<close>. The map is given by the
  sequence \<open>catalogConfigs\<close> of its entries as the first \<^verbatim>\<open>range\<close> yields them (the keys
  are distinct), and \<open>keys2\<close> is the order in which the second \<^verbatim>\<open>range\<close> yields the keys:
  Go fixes neither. The embedded \<open>rawCatalog\<close> is a parameter; a failure to decode it is
  only logged. The result is the list of calls made to \<^verbatim>\<open>applyStateCallback\<close>, in order,
  and the new state (\<open>None\<close>: the goroutine panicked).
\<close>

definition onCatalogUpdate ::
  "unmarshal \<Rightarrow> bytes \<Rightarrow> orgConfig \<Rightarrow> (string \<times> RawConfig) list \<Rightarrow> string list \<Rightarrow>
     (string \<times> ApplyStatus) list \<times> orgConfig option" where
  "onCatalogUpdate Unmarshal rawCatalog c catalogConfigs keys2 =
     (case mergeConfigs Unmarshal catalogConfigs (snd (Unmarshal rawCatalog)) of
        Inl reply \<Rightarrow> ([reply], Some c)
      | Inr mergedCatalog \<Rightarrow>
          (map (\<lambda>configPath. (configPath, \<lparr>State = ApplyStateAcknowledged, Error = []\<rparr>)) keys2,
           closeCatalogReceivedOnce (c\<lparr>catalog := mergedCatalog\<rparr>)))"

section \<open>The installer (pkg/updater/install.go)\<close>

subsection \<open>Constants\<close>

definition datadogPackageLayerMediaType :: string where
  "datadogPackageLayerMediaType = ''application/vnd.datadog.package.layer.v1.tar+zstd''"

text \<open>\<^verbatim>\<open>datadogPackageMaxSize = 3 << 30\<close>, in bytes.\<close>

definition datadogPackageMaxSize :: nat where
  "datadogPackageMaxSize = push_bit 30 3"

subsection \<open>The file system\<close>

text \<open>
  What the installer sees of the operating system: the environment variable
  \<^verbatim>\<open>TMPDIR\<close>; the answer \<open>temp_name\<close> of the system to the creation of a directory with
  a random name (an error, or the unused name it settles on); for every directory the
  device, that is the file system, it lives on; and the nodes created, each with the
  number of bytes written to it, in the order of their creation.
\<close>

record fs =
  TMPDIR :: string
  temp_name :: "error + string"
  device :: "string \<Rightarrow> nat"
  nodes :: "(string \<times> nat) list"

text \<open>\<^verbatim>\<open>os.TempDir()\<close> on Unix: \<^verbatim>\<open>$TMPDIR\<close>, or \<^verbatim>\<open>/tmp\<close> when it is empty.\<close>

definition TempDir :: "fs \<Rightarrow> string" where
  "TempDir f = (if TMPDIR f = [] then ''/tmp'' else TMPDIR f)"

definition joinPath :: "string \<Rightarrow> string \<Rightarrow> string" where
  "joinPath dir name =
     (if dir \<noteq> [] \<and> last dir = CHR ''/'' then dir @ name else dir @ ''/'' @ name)"

text \<open>The split of a pattern at its last \<^verbatim>\<open>*\<close> into a prefix and a suffix.\<close>

definition prefixAndSuffix :: "string \<Rightarrow> string \<times> string" where
  "prefixAndSuffix pattern =
     (if CHR ''*'' \<in> set pattern
      then (let suffix = rev (takeWhile (\<lambda>c. c \<noteq> CHR ''*'') (rev pattern))
            in (take (length pattern - length suffix - 1) pattern, suffix))
      else (pattern, []))"

text \<open>
  \<^verbatim>\<open>os.MkdirTemp(dir, pattern)\<close>: a new directory in \<open>dir\<close>, in the default directory
  for temporary files when \<open>dir\<close> is empty. The new directory lives on the device of its
  parent.
\<close>

definition MkdirTemp :: "string \<Rightarrow> string \<Rightarrow> fs \<Rightarrow> (error + string) \<times> fs" where
  "MkdirTemp dir pattern f =
     (let dir = (if dir = [] then TempDir f else dir) in
      if CHR ''/'' \<in> set pattern
      then (Inl (ErrorString ''pattern contains path separator''), f)
      else (case temp_name f of
              Inl err \<Rightarrow> (Inl err, f)
            | Inr rnd \<Rightarrow>
                (let name = joinPath dir (fst (prefixAndSuffix pattern) @ rnd @
                                          snd (prefixAndSuffix pattern))
                 in (Inr name,
                     f\<lparr>device := (device f)(name := device f dir),
                       nodes := nodes f @ [(name, 0)]\<rparr>))))"

text \<open>A node is under a path when it is the path or lies in the directory of that name.\<close>

definition under :: "string \<Rightarrow> string \<Rightarrow> bool" where
  "under path p = (p = path \<or> prefix (path @ ''/'') p)"

text \<open>
  \<^verbatim>\<open>os.RemoveAll(path)\<close> removes the path and everything under it; on the empty path
  it does nothing. The two callers discard its error (\<^verbatim>\<open>defer os.RemoveAll(tmpDir)\<close>).
\<close>

definition RemoveAll :: "string \<Rightarrow> fs \<Rightarrow> fs" where
  "RemoveAll path f =
     (if path = [] then f else f\<lparr>nodes := filter (\<lambda>n. \<not> under path (fst n)) (nodes f)\<rparr>)"

text \<open>The bytes written under a directory.\<close>

definition bytes_under :: "string \<Rightarrow> fs \<Rightarrow> nat" where
  "bytes_under dir f = sum_list (map snd (filter (\<lambda>n. under dir (fst n)) (nodes f)))"

subsection \<open>OCI images\<close>

text \<open>
  The capabilities of \<^verbatim>\<open>oci.Image\<close> and \<^verbatim>\<open>oci.Layer\<close> that the installer uses, each
  with the error it may return. The uncompressed stream of a layer is given by the tar
  entries it holds; its size is the sum of their sizes.
\<close>

datatype typeflag = TypeReg | TypeDir | TypeSymlink | TypeLink | TypeChar | TypeBlock | TypeFifo

record tar_header =
  hdr_Name :: string
  hdr_Typeflag :: typeflag
  hdr_Linkname :: string
  hdr_Size :: nat

type_synonym tar_stream = "tar_header list"

definition tar_size :: "tar_stream \<Rightarrow> nat" where
  "tar_size s = sum_list (map hdr_Size s)"

record layer =
  MediaType :: "error + string"
  Uncompressed :: "error + tar_stream"

record image =
  Layers :: "error + layer list"

subsection \<open>Extraction\<close>

text \<open>
  The type of \<^verbatim>\<open>extractTarArchive(reader, destinationPath, maxSize)\<close>. The function is
  not among the sources: \<^verbatim>\<open>extractPackageLayers\<close> takes it as a parameter.
\<close>

type_synonym extractor = "tar_stream \<Rightarrow> string \<Rightarrow> nat \<Rightarrow> fs \<Rightarrow> error option \<times> fs"

text \<open>The loop of \<^verbatim>\<open>extractPackageLayers\<close> over the layers of the image.\<close>

fun extractLayers :: "extractor \<Rightarrow> layer list \<Rightarrow> string \<Rightarrow> fs \<Rightarrow> error option \<times> fs" where
  "extractLayers ex [] dir f = (None, f)"
| "extractLayers ex (layer # layers) dir f =
     (case MediaType layer of
        Inl err \<Rightarrow> (Some (Wrap ''could not get layer media type'' err), f)
      | Inr mediaType \<Rightarrow>
          if mediaType = datadogPackageLayerMediaType
          then (case Uncompressed layer of
                  Inl err \<Rightarrow> (Some (Wrap ''could not uncompress layer'' err), f)
                | Inr uncompressedLayer \<Rightarrow>
                    (case ex uncompressedLayer dir datadogPackageMaxSize f of
                       (Some err, f') \<Rightarrow> (Some (Wrap ''could not extract layer'' err), f')
                     | (None, f') \<Rightarrow> extractLayers ex layers dir f'))
          else extractLayers ex layers dir f)"

definition extractPackageLayers :: "extractor \<Rightarrow> image \<Rightarrow> string \<Rightarrow> fs \<Rightarrow> error option \<times> fs" where
  "extractPackageLayers ex img dir f =
     (case Layers img of
        Inl err \<Rightarrow> (Some (Wrap ''could not get image layers'' err), f)
      | Inr layers \<Rightarrow> extractLayers ex layers dir f)"

text \<open>
  Modelled from the spec: \<^verbatim>\<open>extractTarArchive\<close>, the size-bounded tar reader of the
  package extractor, which is not among the sources. The spec gives it a budget of
  uncompressed bytes (a payload that exceeds it aborts with \<^verbatim>\<open>PayloadTooLarge\<close> before
  any bytes are committed), rejects with \<^verbatim>\<open>PayloadMalicious\<close> the entries containing
  \<^verbatim>\<open>..\<close>, absolute paths and symlinks escaping the destination, and accepts regular
  files, directories and symlinks only.
\<close>

fun has_dotdot :: "string \<Rightarrow> bool" where
  "has_dotdot (a # b # cs) = ((a = CHR ''.'' \<and> b = CHR ''.'') \<or> has_dotdot (b # cs))"
| "has_dotdot _ = False"

definition is_absolute :: "string \<Rightarrow> bool" where
  "is_absolute p = (case p of [] \<Rightarrow> False | c # _ \<Rightarrow> c = CHR ''/'')"

definition entry_rejected :: "tar_header \<Rightarrow> error option" where
  "entry_rejected h =
     (if hdr_Typeflag h \<notin> {TypeReg, TypeDir, TypeSymlink}
      then Some (ErrorString ''unsupported tar entry type'')
      else if has_dotdot (hdr_Name h) \<or> is_absolute (hdr_Name h) then Some PayloadMalicious
      else if hdr_Typeflag h = TypeSymlink \<and>
              (has_dotdot (hdr_Linkname h) \<or> is_absolute (hdr_Linkname h))
      then Some PayloadMalicious
      else None)"

fun writeEntries :: "tar_stream \<Rightarrow> string \<Rightarrow> fs \<Rightarrow> error option \<times> fs" where
  "writeEntries [] dir f = (None, f)"
| "writeEntries (h # hs) dir f =
     (case entry_rejected h of
        Some err \<Rightarrow> (Some err, f)
      | None \<Rightarrow>
          writeEntries hs dir (f\<lparr>nodes := nodes f @ [(joinPath dir (hdr_Name h), hdr_Size h)]\<rparr>))"

definition extractTarArchive :: extractor where
  "extractTarArchive reader destinationPath maxSize f =
     (if maxSize < tar_size reader then (Some PayloadTooLarge, f)
      else writeEntries reader destinationPath f)"

subsection \<open>The repositories and the installer\<close>

text \<open>
  Modelled from the spec: the repository store (package \<^verbatim>\<open>repository\<close>, which is not
  among the sources). Its state \<open>'r\<close> is abstract, and the operations the installer
  calls are parameters: \<^verbatim>\<open>Create\<close> and \<^verbatim>\<open>SetExperiment\<close> are transitions, which may
  change the file system and the state of the store and may fail; \<^verbatim>\<open>Get\<close> is an
  accessor that gives a handle \<open>'h\<close> or fails. \<open>rootPath\<close> is the root directory of
  the store.
\<close>

record ('r, 'h) Repositories =
  rootPath :: string
  Create :: "string \<Rightarrow> string \<Rightarrow> string \<Rightarrow> fs \<times> 'r \<Rightarrow> error option \<times> fs \<times> 'r"
  Get :: "string \<Rightarrow> fs \<times> 'r \<Rightarrow> error + 'h"
  SetExperiment :: "'h \<Rightarrow> string \<Rightarrow> string \<Rightarrow> fs \<times> 'r \<Rightarrow> error option \<times> fs \<times> 'r"

record ('r, 'h) installer =
  repositories :: "('r, 'h) Repositories"

text \<open>
  \<^verbatim>\<open>installStable\<close> and \<^verbatim>\<open>installExperiment\<close>. The deferred
  \<^verbatim>\<open>os.RemoveAll(tmpDir)\<close> runs when the function returns, whatever it returns, once
  the temporary directory has been created.
\<close>

definition installStable ::
  "('r, 'h) installer \<Rightarrow> extractor \<Rightarrow> string \<Rightarrow> string \<Rightarrow> image \<Rightarrow> fs \<times> 'r \<Rightarrow>
     error option \<times> fs \<times> 'r" where
  "installStable i ex pkg version img w =
     (case MkdirTemp [] [] (fst w) of
        (Inl err, f1) \<Rightarrow> (Some (Wrap ''could not create temporary directory'' err), (f1, snd w))
      | (Inr tmpDir, f1) \<Rightarrow>
          (case (case extractPackageLayers ex img tmpDir f1 of
                   (Some err, f2) \<Rightarrow>
                     (Some (Wrap ''could not extract package layers'' err), (f2, snd w))
                 | (None, f2) \<Rightarrow> Create (repositories i) pkg version tmpDir (f2, snd w)) of
             (res, (f3, r3)) \<Rightarrow> (res, (RemoveAll tmpDir f3, r3))))"

definition installExperiment ::
  "('r, 'h) installer \<Rightarrow> extractor \<Rightarrow> string \<Rightarrow> string \<Rightarrow> image \<Rightarrow> fs \<times> 'r \<Rightarrow>
     error option \<times> fs \<times> 'r" where
  "installExperiment i ex pkg version img w =
     (case MkdirTemp [] [] (fst w) of
        (Inl err, f1) \<Rightarrow> (Some (Wrap ''could not create temporary directory'' err), (f1, snd w))
      | (Inr tmpDir, f1) \<Rightarrow>
          (case (case extractPackageLayers ex img tmpDir f1 of
                   (Some err, f2) \<Rightarrow>
                     (Some (Wrap ''could not extract package layers'' err), (f2, snd w))
                 | (None, f2) \<Rightarrow>
                     (case Get (repositories i) pkg (f2, snd w) of
                        Inl err \<Rightarrow> (Some (Wrap ''could not get repository'' err), (f2, snd w))
                      | Inr repository \<Rightarrow>
                          SetExperiment (repositories i) repository version tmpDir (f2, snd w))) of
             (res, (f3, r3)) \<Rightarrow> (res, (RemoveAll tmpDir f3, r3))))"

section \<open>Notions used in the statements\<close>

text \<open>A config decodes when \<^verbatim>\<open>json.Unmarshal\<close> gives no error; \<open>decoded\<close> is its package list.\<close>

definition decodes :: "unmarshal \<Rightarrow> RawConfig \<Rightarrow> bool" where
  "decodes Unmarshal config = (fst (Unmarshal (Config config)) = None)"

definition decoded :: "unmarshal \<Rightarrow> RawConfig \<Rightarrow> Package list" where
  "decoded Unmarshal config = Packages (snd (Unmarshal (Config config)))"

text \<open>A batch of configs is accepted when every config of it decodes.\<close>

definition accepted :: "unmarshal \<Rightarrow> (string \<times> RawConfig) list \<Rightarrow> bool" where
  "accepted Unmarshal catalogConfigs = list_all (\<lambda>kc. decodes Unmarshal (snd kc)) catalogConfigs"

text \<open>The replies that a config ID received, among the calls of the callback.\<close>

definition replies_to :: "string \<Rightarrow> (string \<times> ApplyStatus) list \<Rightarrow> ApplyStatus list" where
  "replies_to configPath replies = map snd (filter (\<lambda>r. fst r = configPath) replies)"

text \<open>
  The remote-config client calls \<^verbatim>\<open>onCatalogUpdate\<close> once for every update it
  receives: a run is a sequence of such calls, each with its configs and the key order of
  its second loop. A panic ends the run (\<open>None\<close>).
\<close>

fun updates ::
  "unmarshal \<Rightarrow> bytes \<Rightarrow> ((string \<times> RawConfig) list \<times> string list) list \<Rightarrow> orgConfig \<Rightarrow>
     orgConfig option" where
  "updates Unmarshal rawCatalog [] c = Some c"
| "updates Unmarshal rawCatalog (u # us) c =
     (case snd (onCatalogUpdate Unmarshal rawCatalog c (fst u) (snd u)) of
        None \<Rightarrow> None
      | Some c' \<Rightarrow> updates Unmarshal rawCatalog us c')"

text \<open>A layer is a payload layer when its media type is the one of package payloads.\<close>

definition is_payload :: "layer \<Rightarrow> bool" where
  "is_payload l = (MediaType l = Inr datadogPackageLayerMediaType)"

text \<open>
  The extraction in the words of the spec: for each selected layer, in order, the
  uncompressed tar entries are streamed into the destination; the first failure ends it.
\<close>

fun extract_selected :: "extractor \<Rightarrow> layer list \<Rightarrow> string \<Rightarrow> fs \<Rightarrow> error option \<times> fs" where
  "extract_selected ex [] dir f = (None, f)"
| "extract_selected ex (l # ls) dir f =
     (case Uncompressed l of
        Inl err \<Rightarrow> (Some (Wrap ''could not uncompress layer'' err), f)
      | Inr s \<Rightarrow>
          (case ex s dir datadogPackageMaxSize f of
             (Some err, f') \<Rightarrow> (Some (Wrap ''could not extract layer'' err), f')
           | (None, f') \<Rightarrow> extract_selected ex ls dir f'))"

section \<open>Concrete inputs\<close>

definition agent_7_50 :: Package where
  "agent_7_50 = \<lparr>Name = ''agent'', Version = ''7.50.0'', SHA256 = ''abc'',
     URL = ''file:///tmp/img'', Size = 1024, Platform = ''linux'', Arch = ''amd64''\<rparr>"

definition agent_7_51 :: Package where
  "agent_7_51 = \<lparr>Name = ''agent'', Version = ''7.51.0'', SHA256 = ''def'',
     URL = ''file:///tmp/img2'', Size = 2048, Platform = ''windows'', Arch = ''arm64''\<rparr>"

text \<open>
  A stand-in for \<^verbatim>\<open>json.Unmarshal\<close> on three inputs: the empty input is an error, the
  byte 1 is the catalog of \<open>agent_7_50\<close>, the byte 2 the one of \<open>agent_7_51\<close>.
\<close>

definition toy_Unmarshal :: unmarshal where
  "toy_Unmarshal b =
     (if b = [] then (Some ''unexpected end of JSON input'', \<lparr>Packages = []\<rparr>)
      else if b = [1] then (None, \<lparr>Packages = [agent_7_50]\<rparr>)
      else if b = [2] then (None, \<lparr>Packages = [agent_7_51]\<rparr>)
      else (None, \<lparr>Packages = []\<rparr>))"

definition received_7_50 :: orgConfig where
  "received_7_50 =
     \<lparr>catalogReceived = Closed, catalogReceivedSync = True, catalog = \<lparr>Packages = [agent_7_50]\<rparr>\<rparr>"

text \<open>A host with \<^verbatim>\<open>TMPDIR\<close> unset, where \<^verbatim>\<open>/tmp\<close> is a file system of its own.\<close>

definition host_fs :: fs where
  "host_fs = \<lparr>TMPDIR = [], temp_name = Inr ''2218044517'',
     device = (\<lambda>p. if p = ''/tmp'' then 1 else 0), nodes = []\<rparr>"

definition payload_of :: "nat \<Rightarrow> layer" where
  "payload_of n =
     \<lparr>MediaType = Inr datadogPackageLayerMediaType,
      Uncompressed = Inr [\<lparr>hdr_Name = ''./bin/agent'', hdr_Typeflag = TypeReg,
                           hdr_Linkname = [], hdr_Size = n\<rparr>]\<rparr>"

definition config_layer :: layer where
  "config_layer = \<lparr>MediaType = Inr ''application/vnd.oci.image.config.v1+json'',
     Uncompressed = Inr [\<lparr>hdr_Name = ''/etc/passwd'', hdr_Typeflag = TypeReg,
                          hdr_Linkname = [], hdr_Size = 7\<rparr>]\<rparr>"

text \<open>A payload layer with the entry \<^verbatim>\<open>../etc/passwd\<close>.\<close>

definition evil_layer :: layer where
  "evil_layer = \<lparr>MediaType = Inr datadogPackageLayerMediaType,
     Uncompressed = Inr [\<lparr>hdr_Name = ''../etc/passwd'', hdr_Typeflag = TypeReg,
                          hdr_Linkname = [], hdr_Size = 7\<rparr>]\<rparr>"

text \<open>
  A repository store that records, at every transition, the staging directory it is
  given, the device of that directory and the device of its own root.
\<close>

definition probe :: "((string \<times> nat \<times> nat) list, unit) installer" where
  "probe = \<lparr>repositories = \<lparr>rootPath = ''/opt/datadog-packages'',
     Create = (\<lambda>pkg version dir w.
        (None, (fst w, snd w @ [(dir, device (fst w) dir, device (fst w) ''/opt/datadog-packages'')]))),
     Get = (\<lambda>pkg w. if pkg = ''agent'' then Inr () else Inl (ErrorString ''no such repository'')),
     SetExperiment = (\<lambda>h version dir w.
        (None, (fst w, snd w @ [(dir, device (fst w) dir, device (fst w) ''/opt/datadog-packages'')])))\<rparr>\<rparr>"

text \<open>
  A repository store whose transitions fail, as a rename across file systems does, and
  record what they were given all the same.
\<close>

definition failing_store :: "((string \<times> nat \<times> nat) list, unit) installer" where
  "failing_store = \<lparr>repositories = \<lparr>rootPath = ''/opt/datadog-packages'',
     Create = (\<lambda>pkg version dir w.
        (Some (ErrorString ''invalid cross-device link''),
         (fst w, snd w @ [(dir, device (fst w) dir, device (fst w) ''/opt/datadog-packages'')]))),
     Get = (\<lambda>pkg w. if pkg = ''agent'' then Inr () else Inl (ErrorString ''no such repository'')),
     SetExperiment = (\<lambda>h version dir w.
        (Some (ErrorString ''invalid cross-device link''),
         (fst w, snd w @ [(dir, device (fst w) dir, device (fst w) ''/opt/datadog-packages'')])))\<rparr>\<rparr>"

section \<open>The catalog: lookup\<close>

lemma findPackage_prefix:
  "\<forall>q \<in> set pre. \<not> (Name q = pkg \<and> Version q = version) \<Longrightarrow>
   findPackage (pre @ rest) pkg version = findPackage rest pkg version"
  by (induction pre) auto

lemma findPackage_SomeD:
  "findPackage ps pkg version = Some p \<Longrightarrow>
     \<exists>pre post. ps = pre @ p # post \<and> Name p = pkg \<and> Version p = version \<and>
        (\<forall>q \<in> set pre. \<not> (Name q = pkg \<and> Version q = version))"
proof (induction ps)
  case Nil
  then show ?case by simp
next
  case (Cons a ps)
  show ?case
  proof (cases "Name a = pkg \<and> Version a = version")
    case True
    with Cons.prems have "a = p" by simp
    with True have "a # ps = [] @ p # ps \<and> Name p = pkg \<and> Version p = version \<and>
        (\<forall>q \<in> set []. \<not> (Name q = pkg \<and> Version q = version))" by simp
    then show ?thesis by blast
  next
    case False
    with Cons.prems have "findPackage ps pkg version = Some p" by auto
    from Cons.IH [OF this] obtain pre post where
      h: "ps = pre @ p # post" "Name p = pkg" "Version p = version"
         "\<forall>q \<in> set pre. \<not> (Name q = pkg \<and> Version q = version)" by blast
    with False have "a # ps = (a # pre) @ p # post \<and> Name p = pkg \<and> Version p = version \<and>
        (\<forall>q \<in> set (a # pre). \<not> (Name q = pkg \<and> Version q = version))" by simp
    then show ?thesis by blast
  qed
qed

lemma findPackage_Some_iff:
  "findPackage ps pkg version = Some p \<longleftrightarrow>
     (\<exists>pre post. ps = pre @ p # post \<and> Name p = pkg \<and> Version p = version \<and>
        (\<forall>q \<in> set pre. \<not> (Name q = pkg \<and> Version q = version)))"
  using findPackage_SomeD [of ps pkg version p] findPackage_prefix [of _ pkg version]
  by fastforce

lemma findPackage_None_iff:
  "findPackage ps pkg version = None \<longleftrightarrow>
     (\<forall>q \<in> set ps. \<not> (Name q = pkg \<and> Version q = version))"
  by (induction ps) auto

lemma GetPackage_live_open:
  "ctx_Err ctx = None \<Longrightarrow> catalogReceived c = Closed \<Longrightarrow>
   GetPackage pick ctx c pkg version =
     Some (case findPackage (Packages (catalog c)) pkg version of
             Some p \<Rightarrow> Inr p
           | None \<Rightarrow> Inl (PackageNotFound pkg version (Packages (catalog c))))"
  by (simp add: GetPackage_def waitForCatalog_def ctx_Done_def split: option.splits)

text \<open>
  Claim C2, as amended. \<^verbatim>\<open>GetPackage\<close> does not return while the latch is closed and the
  context is live. With the context cancelled and the latch closed it fails with the
  error of the context, wrapped. With the latch open and the context live it returns the
  first entry of the catalog whose name and version are the requested ones, and fails
  with the not-found error exactly when no entry has them. With the latch open and the
  context already cancelled both cases of the select are ready, and either may be taken:
  the error of the context, or the result of the lookup.
\<close>

theorem GetPackage_waits_for_the_latch:
  "(ctx_Err ctx = None \<and> catalogReceived c = Unclosed \<longrightarrow>
      GetPackage pick ctx c pkg version = None) \<and>
   (ctx_Err ctx = Some err \<and> catalogReceived c = Unclosed \<longrightarrow>
      GetPackage pick ctx c pkg version =
        Some (Inl (Wrap ''context canceled while waiting for catalog'' err))) \<and>
   (ctx_Err ctx = None \<and> catalogReceived c = Closed \<longrightarrow>
      (\<forall>p. GetPackage pick ctx c pkg version = Some (Inr p) \<longleftrightarrow>
         (\<exists>pre post. Packages (catalog c) = pre @ p # post \<and>
            Name p = pkg \<and> Version p = version \<and>
            (\<forall>q \<in> set pre. \<not> (Name q = pkg \<and> Version q = version)))) \<and>
      (GetPackage pick ctx c pkg version =
         Some (Inl (PackageNotFound pkg version (Packages (catalog c)))) \<longleftrightarrow>
         (\<forall>q \<in> set (Packages (catalog c)). \<not> (Name q = pkg \<and> Version q = version)))) \<and>
   (ctx_Err ctx = Some err \<and> catalogReceived c = Closed \<longrightarrow>
      GetPackage True ctx c pkg version =
        Some (Inl (Wrap ''context canceled while waiting for catalog'' err)) \<and>
      GetPackage False ctx c pkg version = GetPackage False (Ctx None) c pkg version)"
proof (intro conjI impI allI)
  assume "ctx_Err ctx = None \<and> catalogReceived c = Unclosed"
  then show "GetPackage pick ctx c pkg version = None"
    by (simp add: GetPackage_def waitForCatalog_def ctx_Done_def)
next
  assume "ctx_Err ctx = Some err \<and> catalogReceived c = Unclosed"
  then show "GetPackage pick ctx c pkg version =
        Some (Inl (Wrap ''context canceled while waiting for catalog'' err))"
    by (simp add: GetPackage_def waitForCatalog_def ctx_Done_def)
next
  fix p
  assume "ctx_Err ctx = None \<and> catalogReceived c = Closed"
  then have "GetPackage pick ctx c pkg version = Some (Inr p) \<longleftrightarrow>
      findPackage (Packages (catalog c)) pkg version = Some p"
    by (simp add: GetPackage_live_open split: option.splits)
  then show "GetPackage pick ctx c pkg version = Some (Inr p) \<longleftrightarrow>
         (\<exists>pre post. Packages (catalog c) = pre @ p # post \<and>
            Name p = pkg \<and> Version p = version \<and>
            (\<forall>q \<in> set pre. \<not> (Name q = pkg \<and> Version q = version)))"
    by (simp only: findPackage_Some_iff)
next
  assume "ctx_Err ctx = None \<and> catalogReceived c = Closed"
  then have "GetPackage pick ctx c pkg version =
         Some (Inl (PackageNotFound pkg version (Packages (catalog c)))) \<longleftrightarrow>
      findPackage (Packages (catalog c)) pkg version = None"
    by (simp add: GetPackage_live_open split: option.splits)
  then show "GetPackage pick ctx c pkg version =
         Some (Inl (PackageNotFound pkg version (Packages (catalog c)))) \<longleftrightarrow>
         (\<forall>q \<in> set (Packages (catalog c)). \<not> (Name q = pkg \<and> Version q = version))"
    by (simp only: findPackage_None_iff)
next
  assume "ctx_Err ctx = Some err \<and> catalogReceived c = Closed"
  then show "GetPackage True ctx c pkg version =
        Some (Inl (Wrap ''context canceled while waiting for catalog'' err))"
    by (simp add: GetPackage_def waitForCatalog_def ctx_Done_def)
next
  assume "ctx_Err ctx = Some err \<and> catalogReceived c = Closed"
  then show "GetPackage False ctx c pkg version = GetPackage False (Ctx None) c pkg version"
    by (simp add: GetPackage_def waitForCatalog_def ctx_Done_def)
qed

text \<open>The theorem at concrete inputs, one for each of its cases.\<close>

theorem GetPackage_waits_for_the_latch_witness:
  "GetPackage False (Ctx None) newOrgConfig ''agent'' ''7.50.0'' = None \<and>
   GetPackage False (Ctx (Some Canceled)) newOrgConfig ''agent'' ''7.50.0'' =
     Some (Inl (Wrap ''context canceled while waiting for catalog'' Canceled)) \<and>
   GetPackage False (Ctx None) received_7_50 ''agent'' ''7.50.0'' = Some (Inr agent_7_50) \<and>
   GetPackage False (Ctx None) received_7_50 ''agent'' ''7.49.0'' =
     Some (Inl (PackageNotFound ''agent'' ''7.49.0'' [agent_7_50])) \<and>
   GetPackage False (Ctx (Some Canceled)) received_7_50 ''agent'' ''7.50.0'' =
     Some (Inr agent_7_50)"
  using GetPackage_waits_for_the_latch [where ctx = "Ctx None" and c = newOrgConfig and
      pick = False and pkg = "''agent''" and version = "''7.50.0''"]
    GetPackage_waits_for_the_latch [where ctx = "Ctx (Some Canceled)" and c = newOrgConfig and
      err = Canceled and pick = False and pkg = "''agent''" and version = "''7.50.0''"]
    GetPackage_waits_for_the_latch [where ctx = "Ctx None" and c = received_7_50 and
      pick = False and pkg = "''agent''" and version = "''7.50.0''"]
    GetPackage_waits_for_the_latch [where ctx = "Ctx None" and c = received_7_50 and
      pick = False and pkg = "''agent''" and version = "''7.49.0''"]
    GetPackage_waits_for_the_latch [where ctx = "Ctx (Some Canceled)" and c = received_7_50 and
      err = Canceled and pick = False and pkg = "''agent''" and version = "''7.50.0''"]
  by (simp add: GetPackage_def waitForCatalog_def ctx_Done_def newOrgConfig_def
      received_7_50_def agent_7_50_def)

text \<open>
  The claim as stated fails: the latch is open and the catalog has the entry, and yet the
  call fails, the context being cancelled and the select taking its first case.
\<close>

theorem GetPackage_open_latch_counterexample:
  "catalogReceived received_7_50 = Closed \<and>
   findPackage (Packages (catalog received_7_50)) ''agent'' ''7.50.0'' = Some agent_7_50 \<and>
   GetPackage True (Ctx (Some Canceled)) received_7_50 ''agent'' ''7.50.0'' =
     Some (Inl (Wrap ''context canceled while waiting for catalog'' Canceled))"
  by (simp add: GetPackage_def waitForCatalog_def ctx_Done_def received_7_50_def agent_7_50_def)

section \<open>The catalog: updates\<close>

lemma mergeConfigs_accepted:
  "accepted U cfgs \<Longrightarrow>
   mergeConfigs U cfgs m =
     Inr (m\<lparr>Packages := Packages m @ concat (map (\<lambda>kc. decoded U (snd kc)) cfgs)\<rparr>)"
proof (induction cfgs arbitrary: m)
  case Nil
  then show ?case by simp
next
  case (Cons kc cfgs)
  obtain k config where kc: "kc = (k, config)" by (cases kc)
  obtain e cat where u: "U (Config config) = (e, cat)" by (cases "U (Config config)")
  from Cons.prems kc u have e: "e = None" by (simp add: accepted_def decodes_def)
  from Cons.prems have "accepted U cfgs" by (simp add: accepted_def)
  from Cons.IH [OF this] kc u e show ?case by (simp add: decoded_def)
qed

lemma mergeConfigs_first_failure:
  "accepted U pre \<Longrightarrow> fst (U (Config config)) = Some err \<Longrightarrow>
   mergeConfigs U (pre @ (k, config) # post) m = Inl (k, \<lparr>State = ApplyStateError, Error = err\<rparr>)"
proof (induction pre arbitrary: m)
  case Nil
  then show ?case by (cases "U (Config config)") simp
next
  case (Cons kc pre)
  obtain k' config' where kc: "kc = (k', config')" by (cases kc)
  obtain e cat where u: "U (Config config') = (e, cat)" by (cases "U (Config config')")
  from Cons.prems kc u have e: "e = None" by (simp add: accepted_def decodes_def)
  from Cons.prems have "accepted U pre" by (simp add: accepted_def)
  from Cons.IH [OF this Cons.prems(2)] kc u e show ?case by simp
qed

lemma first_failure_exists:
  assumes "\<not> accepted U cfgs"
  shows "\<exists>pre k config post err. cfgs = pre @ (k, config) # post \<and>
           accepted U pre \<and> fst (U (Config config)) = Some err"
proof -
  from assms have "\<exists>kc \<in> set cfgs. \<not> decodes U (snd kc)"
    by (simp add: accepted_def list_all_iff)
  from split_list_first_prop [OF this] obtain pre kc post where
    h: "cfgs = pre @ kc # post" "\<not> decodes U (snd kc)" "\<forall>y \<in> set pre. \<not> \<not> decodes U (snd y)"
    by blast
  obtain k config where kc: "kc = (k, config)" by (cases kc)
  from h(2) kc obtain err where "fst (U (Config config)) = Some err"
    by (auto simp: decodes_def)
  moreover from h(3) have "accepted U pre" by (simp add: accepted_def list_all_iff)
  ultimately show ?thesis using h(1) kc by blast
qed

lemma replies_to_acks:
  "distinct keys \<Longrightarrow> k \<in> set keys \<Longrightarrow>
   replies_to k (map (\<lambda>configPath. (configPath, st)) keys) = [st]"
proof (induction keys)
  case Nil
  then show ?case by simp
next
  case (Cons a keys)
  show ?case
  proof (cases "a = k")
    case True
    with Cons.prems have "k \<notin> set keys" by simp
    then have "filter (\<lambda>r. fst r = k) (map (\<lambda>configPath. (configPath, st)) keys) = []"
      by (induction keys) auto
    with True show ?thesis by (simp add: replies_to_def)
  next
    case False
    with Cons show ?thesis by (simp add: replies_to_def)
  qed
qed

lemma catalog_update_Packages: "(m :: catalog)\<lparr>Packages := ps\<rparr> = \<lparr>Packages = ps\<rparr>"
  by (cases m) simp

lemma onCatalogUpdate_accepted:
  "accepted U cfgs \<Longrightarrow>
   onCatalogUpdate U raw c cfgs keys2 =
     (map (\<lambda>configPath. (configPath, \<lparr>State = ApplyStateAcknowledged, Error = []\<rparr>)) keys2,
      closeCatalogReceivedOnce
        (c\<lparr>catalog := \<lparr>Packages = Packages (snd (U raw)) @
                                  concat (map (\<lambda>kc. decoded U (snd kc)) cfgs)\<rparr>\<rparr>))"
  by (simp add: onCatalogUpdate_def mergeConfigs_accepted catalog_update_Packages)

lemma onCatalogUpdate_rejected:
  "accepted U pre \<Longrightarrow> fst (U (Config config)) = Some err \<Longrightarrow>
   onCatalogUpdate U raw c (pre @ (k, config) # post) keys2 =
     ([(k, \<lparr>State = ApplyStateError, Error = err\<rparr>)], Some c)"
  by (simp add: onCatalogUpdate_def mergeConfigs_first_failure)

text \<open>
  Claim C1, as amended. The second loop yields every key of the map once. When every
  config decodes, every delivered config ID receives exactly one
  reply, \<^verbatim>\<open>Acknowledged\<close>. When some config does not decode, the callback is called
  once in all: the first config that fails to decode, in the order of the first loop,
  receives \<^verbatim>\<open>Error\<close> with the text of the decoding error, and the function returns; no
  other config ID receives a reply.
\<close>

theorem onCatalogUpdate_replies:
  assumes "distinct keys2" and "set keys2 = set (map fst cfgs)"
  shows "(accepted U cfgs \<longrightarrow>
           (\<forall>k \<in> set (map fst cfgs).
              replies_to k (fst (onCatalogUpdate U raw c cfgs keys2)) =
                [\<lparr>State = ApplyStateAcknowledged, Error = []\<rparr>])) \<and>
         (\<not> accepted U cfgs \<longrightarrow>
           (\<exists>pre k config post err. cfgs = pre @ (k, config) # post \<and>
              accepted U pre \<and> fst (U (Config config)) = Some err \<and>
              fst (onCatalogUpdate U raw c cfgs keys2) =
                [(k, \<lparr>State = ApplyStateError, Error = err\<rparr>)]))"
proof (intro conjI impI ballI)
  fix k
  assume acc: "accepted U cfgs" and k: "k \<in> set (map fst cfgs)"
  from k assms(2) have "k \<in> set keys2" by simp
  from replies_to_acks [OF assms(1) this] onCatalogUpdate_accepted [OF acc]
  show "replies_to k (fst (onCatalogUpdate U raw c cfgs keys2)) =
                [\<lparr>State = ApplyStateAcknowledged, Error = []\<rparr>]"
    by simp
next
  assume "\<not> accepted U cfgs"
  from first_failure_exists [OF this] obtain pre k config post err where
    h: "cfgs = pre @ (k, config) # post" "accepted U pre"
       "fst (U (Config config)) = Some err" by blast
  from onCatalogUpdate_rejected [OF h(2,3)] h(1)
  have "fst (onCatalogUpdate U raw c cfgs keys2) = [(k, \<lparr>State = ApplyStateError, Error = err\<rparr>)]"
    by simp
  with h show "\<exists>pre k config post err. cfgs = pre @ (k, config) # post \<and>
              accepted U pre \<and> fst (U (Config config)) = Some err \<and>
              fst (onCatalogUpdate U raw c cfgs keys2) =
                [(k, \<lparr>State = ApplyStateError, Error = err\<rparr>)]" by blast
qed

text \<open>Two updates: one of two configs that decode, one whose second config of three does not.\<close>

theorem onCatalogUpdate_replies_witness:
  "replies_to ''cfg1'' (fst (onCatalogUpdate toy_Unmarshal [1] newOrgConfig
      [(''cfg1'', \<lparr>Config = [2]\<rparr>), (''cfg2'', \<lparr>Config = [3]\<rparr>)] [''cfg2'', ''cfg1''])) =
     [\<lparr>State = ApplyStateAcknowledged, Error = []\<rparr>] \<and>
   replies_to ''cfg2'' (fst (onCatalogUpdate toy_Unmarshal [1] newOrgConfig
      [(''cfg1'', \<lparr>Config = [2]\<rparr>), (''cfg2'', \<lparr>Config = [3]\<rparr>)] [''cfg2'', ''cfg1''])) =
     [\<lparr>State = ApplyStateAcknowledged, Error = []\<rparr>] \<and>
   fst (onCatalogUpdate toy_Unmarshal [1] newOrgConfig
      [(''cfg1'', \<lparr>Config = [2]\<rparr>), (''cfg2'', \<lparr>Config = []\<rparr>), (''cfg3'', \<lparr>Config = [3]\<rparr>)]
      [''cfg3'', ''cfg2'', ''cfg1'']) =
     [(''cfg2'', \<lparr>State = ApplyStateError, Error = ''unexpected end of JSON input''\<rparr>)]"
  using onCatalogUpdate_replies [where cfgs = "[(''cfg1'', \<lparr>Config = [2]\<rparr>), (''cfg2'', \<lparr>Config = [3]\<rparr>)]"
      and ?keys2.0 = "[''cfg2'', ''cfg1'']" and U = toy_Unmarshal and raw = "[1]" and c = newOrgConfig]
    onCatalogUpdate_replies [where cfgs = "[(''cfg1'', \<lparr>Config = [2]\<rparr>), (''cfg2'', \<lparr>Config = []\<rparr>),
        (''cfg3'', \<lparr>Config = [3]\<rparr>)]"
      and ?keys2.0 = "[''cfg3'', ''cfg2'', ''cfg1'']" and U = toy_Unmarshal and raw = "[1]"
      and c = newOrgConfig]
  by (simp add: accepted_def decodes_def toy_Unmarshal_def onCatalogUpdate_def replies_to_def)

text \<open>
  The claim as stated fails: in the second update the configs \<^verbatim>\<open>cfg1\<close> (decoded before
  the failure) and \<^verbatim>\<open>cfg3\<close> (never reached) are delivered and receive no reply.
\<close>

theorem onCatalogUpdate_replies_counterexample:
  "replies_to ''cfg1'' (fst (onCatalogUpdate toy_Unmarshal [1] newOrgConfig
      [(''cfg1'', \<lparr>Config = [2]\<rparr>), (''cfg2'', \<lparr>Config = []\<rparr>), (''cfg3'', \<lparr>Config = [3]\<rparr>)]
      [''cfg3'', ''cfg2'', ''cfg1''])) = [] \<and>
   replies_to ''cfg3'' (fst (onCatalogUpdate toy_Unmarshal [1] newOrgConfig
      [(''cfg1'', \<lparr>Config = [2]\<rparr>), (''cfg2'', \<lparr>Config = []\<rparr>), (''cfg3'', \<lparr>Config = [3]\<rparr>)]
      [''cfg3'', ''cfg2'', ''cfg1''])) = []"
  by (simp add: toy_Unmarshal_def onCatalogUpdate_def replies_to_def)

text \<open>
  Claim C7. The \<^verbatim>\<open>sync.Once\<close> has run exactly when the channel is closed, as in every
  state reached from \<^verbatim>\<open>newOrgConfig\<close>. When all the received configs decode, the update
  returns, and the catalog it leaves is the packages decoded from the embedded baseline
  followed by the packages of the received configs, concatenated in the order of the
  first loop: whatever the catalog was before is replaced.
\<close>

theorem onCatalogUpdate_replaces_catalog:
  assumes "accepted U cfgs" and "catalogReceivedSync c = (catalogReceived c = Closed)"
  shows "\<exists>c'. snd (onCatalogUpdate U raw c cfgs keys2) = Some c' \<and>
           Packages (catalog c') =
             Packages (snd (U raw)) @ concat (map (\<lambda>kc. decoded U (snd kc)) cfgs)"
proof (cases "catalogReceived c")
  case Unclosed
  with assms(2) show ?thesis
    by (simp add: onCatalogUpdate_accepted [OF assms(1)] closeCatalogReceivedOnce_def)
next
  case Closed
  with assms(2) show ?thesis
    by (simp add: onCatalogUpdate_accepted [OF assms(1)] closeCatalogReceivedOnce_def)
qed

text \<open>An update of two configs on a state whose catalog is the one entry \<open>agent_7_50\<close>.\<close>

theorem onCatalogUpdate_replaces_catalog_witness:
  "accepted toy_Unmarshal [(''cfg1'', \<lparr>Config = [2]\<rparr>), (''cfg2'', \<lparr>Config = [1]\<rparr>)] \<and>
   (\<exists>c'. snd (onCatalogUpdate toy_Unmarshal [1] received_7_50
             [(''cfg1'', \<lparr>Config = [2]\<rparr>), (''cfg2'', \<lparr>Config = [1]\<rparr>)] [''cfg2'', ''cfg1'']) = Some c' \<and>
          Packages (catalog c') = [agent_7_50, agent_7_51, agent_7_50])"
  using onCatalogUpdate_replaces_catalog [where U = toy_Unmarshal and c = received_7_50
      and cfgs = "[(''cfg1'', \<lparr>Config = [2]\<rparr>), (''cfg2'', \<lparr>Config = [1]\<rparr>)]" and raw = "[1]"
      and ?keys2.0 = "[''cfg2'', ''cfg1'']"]
  by (simp add: accepted_def decodes_def decoded_def toy_Unmarshal_def received_7_50_def)

subsection \<open>The latch\<close>

lemma closeCatalogReceivedOnce_consistent:
  "catalogReceivedSync c = (catalogReceived c = Closed) \<Longrightarrow>
   closeCatalogReceivedOnce c = Some (c\<lparr>catalogReceived := Closed, catalogReceivedSync := True\<rparr>)"
  by (cases "catalogReceived c") (simp_all add: closeCatalogReceivedOnce_def)

lemma onCatalogUpdate_step:
  assumes "catalogReceivedSync c = (catalogReceived c = Closed)"
  shows "\<exists>c'. snd (onCatalogUpdate U raw c cfgs keys2) = Some c' \<and>
           catalogReceivedSync c' = (catalogReceived c' = Closed) \<and>
           (catalogReceived c' = Closed \<longleftrightarrow> catalogReceived c = Closed \<or> accepted U cfgs)"
proof (cases "accepted U cfgs")
  case True
  from onCatalogUpdate_accepted [OF this] closeCatalogReceivedOnce_consistent assms True
  show ?thesis by simp
next
  case False
  from first_failure_exists [OF this] obtain pre k config post err where
    h: "cfgs = pre @ (k, config) # post" "accepted U pre"
       "fst (U (Config config)) = Some err" by blast
  from onCatalogUpdate_rejected [OF h(2,3)] h(1) assms False show ?thesis by simp
qed

lemma updates_latch:
  assumes "catalogReceivedSync c = (catalogReceived c = Closed)"
  shows "\<exists>c'. updates U raw us c = Some c' \<and>
           catalogReceivedSync c' = (catalogReceived c' = Closed) \<and>
           (catalogReceived c' = Closed \<longleftrightarrow>
              catalogReceived c = Closed \<or> (\<exists>u \<in> set us. accepted U (fst u)))"
  using assms
proof (induction us arbitrary: c)
  case Nil
  then show ?case by simp
next
  case (Cons u us)
  from onCatalogUpdate_step [OF Cons.prems, of U raw "fst u" "snd u"] obtain c1 where
    c1: "snd (onCatalogUpdate U raw c (fst u) (snd u)) = Some c1"
        "catalogReceivedSync c1 = (catalogReceived c1 = Closed)"
        "catalogReceived c1 = Closed \<longleftrightarrow> catalogReceived c = Closed \<or> accepted U (fst u)"
    by blast
  from Cons.IH [OF c1(2)] obtain c' where
    c': "updates U raw us c1 = Some c'"
        "catalogReceivedSync c' = (catalogReceived c' = Closed)"
        "catalogReceived c' = Closed \<longleftrightarrow>
           catalogReceived c1 = Closed \<or> (\<exists>u \<in> set us. accepted U (fst u))"
    by blast
  from c1 c' show ?case by auto
qed

text \<open>
  Claim C6. The latch of a new \<^verbatim>\<open>orgConfig\<close> is closed. After any run of updates from
  there, no update has panicked (the channel is never closed twice), and the latch is
  open exactly when some update of the run was accepted: it opens at the first accepted
  update and not before. An update that is not accepted leaves the state as it is, the
  latch included. Once the latch is open it is open after any further run, and a wait
  returns at once: with \<^verbatim>\<open>nil\<close> when the context is live.
\<close>

theorem latch_opens_once:
  "catalogReceived newOrgConfig = Unclosed \<and>
   (\<exists>c1. updates U raw us newOrgConfig = Some c1 \<and>
      (catalogReceived c1 = Closed \<longleftrightarrow> (\<exists>u \<in> set us. accepted U (fst u))) \<and>
      (\<not> accepted U cfgs \<longrightarrow> snd (onCatalogUpdate U raw c1 cfgs keys2) = Some c1) \<and>
      (catalogReceived c1 = Closed \<longrightarrow>
         (\<exists>c2. updates U raw us' c1 = Some c2 \<and> catalogReceived c2 = Closed) \<and>
         waitForCatalog pick ctx c1 \<noteq> None \<and>
         waitForCatalog pick (Ctx None) c1 = Some None))"
proof -
  have init: "catalogReceivedSync newOrgConfig = (catalogReceived newOrgConfig = Closed)"
    by (simp add: newOrgConfig_def)
  from updates_latch [OF init, of U raw us] obtain c1 where
    c1: "updates U raw us newOrgConfig = Some c1"
        "catalogReceivedSync c1 = (catalogReceived c1 = Closed)"
        "catalogReceived c1 = Closed \<longleftrightarrow> (\<exists>u \<in> set us. accepted U (fst u))"
    by (auto simp: newOrgConfig_def)
  have rej: "\<not> accepted U cfgs \<longrightarrow> snd (onCatalogUpdate U raw c1 cfgs keys2) = Some c1"
  proof
    assume "\<not> accepted U cfgs"
    from first_failure_exists [OF this] obtain pre k config post err where
      h: "cfgs = pre @ (k, config) # post" "accepted U pre"
         "fst (U (Config config)) = Some err" by blast
    from onCatalogUpdate_rejected [OF h(2,3)] h(1)
    show "snd (onCatalogUpdate U raw c1 cfgs keys2) = Some c1" by simp
  qed
  have stay: "catalogReceived c1 = Closed \<longrightarrow>
         (\<exists>c2. updates U raw us' c1 = Some c2 \<and> catalogReceived c2 = Closed)"
    using updates_latch [OF c1(2), of U raw us'] by auto
  have wait: "catalogReceived c1 = Closed \<longrightarrow>
         waitForCatalog pick ctx c1 \<noteq> None \<and> waitForCatalog pick (Ctx None) c1 = Some None"
    by (simp add: waitForCatalog_def ctx_Done_def split: chan.splits option.splits)
  from c1(1,3) rej stay wait show ?thesis by (simp add: newOrgConfig_def)
qed

text \<open>
  A run of a rejected update, which leaves the new state as it is, then an accepted one;
  a further rejected update and a further accepted one; and two waits on the open latch.
\<close>

theorem latch_opens_once_witness:
  "catalogReceived newOrgConfig = Unclosed \<and>
   updates toy_Unmarshal [1] [([(''cfg1'', \<lparr>Config = []\<rparr>)], [''cfg1''])] newOrgConfig =
     Some newOrgConfig \<and>
   updates toy_Unmarshal [] [([(''cfg1'', \<lparr>Config = []\<rparr>)], [''cfg1'']),
       ([(''cfg1'', \<lparr>Config = [1]\<rparr>)], [''cfg1''])] newOrgConfig = Some received_7_50 \<and>
   snd (onCatalogUpdate toy_Unmarshal [] received_7_50 [(''cfg1'', \<lparr>Config = []\<rparr>)] [''cfg1'']) =
     Some received_7_50 \<and>
   updates toy_Unmarshal [] [([(''cfg1'', \<lparr>Config = [1]\<rparr>)], [''cfg1''])] received_7_50 =
     Some received_7_50 \<and>
   waitForCatalog True (Ctx (Some Canceled)) received_7_50 = Some (Some Canceled) \<and>
   waitForCatalog True (Ctx None) received_7_50 = Some None"
  using latch_opens_once [where U = toy_Unmarshal and raw = "[]" and
      us = "[([(''cfg1'', \<lparr>Config = []\<rparr>)], [''cfg1'']), ([(''cfg1'', \<lparr>Config = [1]\<rparr>)], [''cfg1''])]"
      and cfgs = "[(''cfg1'', \<lparr>Config = []\<rparr>)]" and ?keys2.0 = "[''cfg1'']"
      and us' = "[([(''cfg1'', \<lparr>Config = [1]\<rparr>)], [''cfg1''])]" and pick = True
      and ctx = "Ctx (Some Canceled)"]
  by (simp add: newOrgConfig_def toy_Unmarshal_def onCatalogUpdate_def received_7_50_def
      closeCatalogReceivedOnce_def waitForCatalog_def ctx_Done_def)

subsection \<open>Platform and architecture\<close>




section \<open>The installer: extraction\<close>

lemma extractLayers_append:
  "extractLayers ex (xs @ ys) dir f =
     (case extractLayers ex xs dir f of
        (Some err, f') \<Rightarrow> (Some err, f')
      | (None, f') \<Rightarrow> extractLayers ex ys dir f')"
  by (induction xs arbitrary: f) (auto split: sum.splits option.splits prod.splits)

lemma extractLayers_selected:
  "\<forall>l \<in> set ls. \<exists>mt. MediaType l = Inr mt \<Longrightarrow>
   extractLayers ex ls dir f = extract_selected ex (filter is_payload ls) dir f"
proof (induction ls arbitrary: f)
  case Nil
  then show ?case by simp
next
  case (Cons l ls)
  from Cons.prems obtain mt where mt: "MediaType l = Inr mt" by auto
  from Cons.prems have rest: "\<forall>l \<in> set ls. \<exists>mt. MediaType l = Inr mt" by simp
  show ?case
  proof (cases "mt = datadogPackageLayerMediaType")
    case True
    with mt have "is_payload l" by (simp add: is_payload_def)
    with mt True Cons.IH [OF rest] show ?thesis
      by (simp split: sum.splits option.splits prod.splits)
  next
    case False
    with mt have "\<not> is_payload l" by (simp add: is_payload_def)
    with mt False Cons.IH [OF rest] show ?thesis by simp
  qed
qed

lemma extract_selected_empty_payloads:
  "\<forall>l \<in> set ls. Uncompressed l = Inr [] \<Longrightarrow>
   \<forall>f. ex [] dir datadogPackageMaxSize f = (None, f) \<Longrightarrow>
   extract_selected ex ls dir f = (None, f)"
  by (induction ls) simp_all

lemma is_payload_literal:
  "is_payload l \<longleftrightarrow> MediaType l = Inr ''application/vnd.datadog.package.layer.v1.tar+zstd''"
  by (simp add: is_payload_def datadogPackageLayerMediaType_def)

text \<open>
  Claim C8. For an image whose list of layers and whose media types can be read,
  \<^verbatim>\<open>extractPackageLayers\<close> does what extracting, in order, exactly the layers whose media
  type is \<^verbatim>\<open>application/vnd.datadog.package.layer.v1.tar+zstd\<close> does: a layer of another
  media type is neither uncompressed nor extracted. With no layer of that media type the
  extraction succeeds and leaves the file system as it is; so it does when every such
  layer is empty, the extraction of an empty stream doing nothing.
\<close>

theorem extractPackageLayers_selects_payload_layers:
  assumes "Layers img = Inr ls" and "\<forall>l \<in> set ls. \<exists>mt. MediaType l = Inr mt"
  shows "extractPackageLayers ex img dir f =
           extract_selected ex
             (filter (\<lambda>l. MediaType l =
                        Inr ''application/vnd.datadog.package.layer.v1.tar+zstd'') ls) dir f \<and>
         ((\<forall>l \<in> set ls. MediaType l \<noteq>
              Inr ''application/vnd.datadog.package.layer.v1.tar+zstd'') \<longrightarrow>
            extractPackageLayers ex img dir f = (None, f)) \<and>
         ((\<forall>l \<in> set ls. MediaType l =
              Inr ''application/vnd.datadog.package.layer.v1.tar+zstd'' \<longrightarrow>
              Uncompressed l = Inr []) \<and>
          (\<forall>f. ex [] dir datadogPackageMaxSize f = (None, f)) \<longrightarrow>
            extractPackageLayers ex img dir f = (None, f))"
proof -
  let ?lit = "\<lambda>l. MediaType l = Inr ''application/vnd.datadog.package.layer.v1.tar+zstd''"
  have flt: "filter is_payload ls = filter ?lit ls"
    by (rule filter_cong) (simp_all add: is_payload_literal)
  have sel: "extractPackageLayers ex img dir f = extract_selected ex (filter ?lit ls) dir f"
    using assms flt by (simp add: extractPackageLayers_def extractLayers_selected)
  have none: "(\<forall>l \<in> set ls. \<not> ?lit l) \<longrightarrow> extractPackageLayers ex img dir f = (None, f)"
  proof
    assume "\<forall>l \<in> set ls. \<not> ?lit l"
    then have "filter ?lit ls = []" by (simp add: filter_empty_conv)
    with sel show "extractPackageLayers ex img dir f = (None, f)" by simp
  qed
  have empty: "(\<forall>l \<in> set ls. ?lit l \<longrightarrow> Uncompressed l = Inr []) \<and>
          (\<forall>f. ex [] dir datadogPackageMaxSize f = (None, f)) \<longrightarrow>
            extractPackageLayers ex img dir f = (None, f)"
  proof
    assume h: "(\<forall>l \<in> set ls. ?lit l \<longrightarrow> Uncompressed l = Inr []) \<and>
          (\<forall>f. ex [] dir datadogPackageMaxSize f = (None, f))"
    then have "\<forall>l \<in> set (filter ?lit ls). Uncompressed l = Inr []" by simp
    from extract_selected_empty_payloads [OF this] h sel
    show "extractPackageLayers ex img dir f = (None, f)" by simp
  qed
  from sel none empty show ?thesis by blast
qed

text \<open>
  Three images: a payload layer between an image config (whose entry would be rejected)
  and a layer of the media type \<^verbatim>\<open>application/vnd.oci.image.layer.v1.tar+zstd\<close>, which
  are ignored; no payload layer; an empty payload layer.
\<close>

theorem extractPackageLayers_selects_payload_layers_witness:
  "extractPackageLayers extractTarArchive
     \<lparr>Layers = Inr [config_layer,
        \<lparr>MediaType = Inr ''application/vnd.datadog.package.layer.v1.tar+zstd'',
         Uncompressed = Inr [\<lparr>hdr_Name = ''./bin/agent'', hdr_Typeflag = TypeReg,
                              hdr_Linkname = [], hdr_Size = 4\<rparr>]\<rparr>,
        \<lparr>MediaType = Inr ''application/vnd.oci.image.layer.v1.tar+zstd'',
         Uncompressed = Inr [\<lparr>hdr_Name = ''./bin/other'', hdr_Typeflag = TypeReg,
                              hdr_Linkname = [], hdr_Size = 9\<rparr>]\<rparr>]\<rparr>
     ''/tmp/x'' host_fs = (None, host_fs\<lparr>nodes := [(''/tmp/x/./bin/agent'', 4)]\<rparr>) \<and>
   extractPackageLayers extractTarArchive
     \<lparr>Layers = Inr [config_layer,
        \<lparr>MediaType = Inr ''application/vnd.oci.image.layer.v1.tar+zstd'',
         Uncompressed = Inr [\<lparr>hdr_Name = ''./bin/other'', hdr_Typeflag = TypeReg,
                              hdr_Linkname = [], hdr_Size = 9\<rparr>]\<rparr>]\<rparr>
     ''/tmp/x'' host_fs = (None, host_fs) \<and>
   extractPackageLayers extractTarArchive
     \<lparr>Layers = Inr [config_layer,
        \<lparr>MediaType = Inr ''application/vnd.datadog.package.layer.v1.tar+zstd'',
         Uncompressed = Inr []\<rparr>]\<rparr>
     ''/tmp/x'' host_fs = (None, host_fs)"
proof -
  let ?agent = "\<lparr>MediaType = Inr ''application/vnd.datadog.package.layer.v1.tar+zstd'',
         Uncompressed = Inr [\<lparr>hdr_Name = ''./bin/agent'', hdr_Typeflag = TypeReg,
                              hdr_Linkname = [], hdr_Size = 4\<rparr>]\<rparr>"
  let ?other = "\<lparr>MediaType = Inr ''application/vnd.oci.image.layer.v1.tar+zstd'',
         Uncompressed = Inr [\<lparr>hdr_Name = ''./bin/other'', hdr_Typeflag = TypeReg,
                              hdr_Linkname = [], hdr_Size = 9\<rparr>]\<rparr>"
  let ?none = "\<lparr>MediaType = Inr ''application/vnd.datadog.package.layer.v1.tar+zstd'',
         Uncompressed = Inr ([] :: tar_stream)\<rparr>"
  have a: "\<forall>l \<in> set [config_layer, ?agent, ?other]. \<exists>mt. MediaType l = Inr mt"
    and b: "\<forall>l \<in> set [config_layer, ?other]. \<exists>mt. MediaType l = Inr mt"
    and c: "\<forall>l \<in> set [config_layer, ?none]. \<exists>mt. MediaType l = Inr mt"
    by (simp_all add: config_layer_def)
  have d: "\<forall>f. extractTarArchive [] ''/tmp/x'' datadogPackageMaxSize f = (None, f)"
    by (simp add: extractTarArchive_def tar_size_def)
  from extractPackageLayers_selects_payload_layers
         [where img = "\<lparr>Layers = Inr [config_layer, ?agent, ?other]\<rparr>"
            and ex = extractTarArchive and dir = "''/tmp/x''" and f = host_fs, OF _ a]
  have 1: "extractPackageLayers extractTarArchive
             \<lparr>Layers = Inr [config_layer, ?agent, ?other]\<rparr> ''/tmp/x'' host_fs =
           (None, host_fs\<lparr>nodes := [(''/tmp/x/./bin/agent'', 4)]\<rparr>)"
    by (simp add: config_layer_def extractTarArchive_def tar_size_def
        datadogPackageMaxSize_def entry_rejected_def is_absolute_def joinPath_def host_fs_def)
  from extractPackageLayers_selects_payload_layers
         [where img = "\<lparr>Layers = Inr [config_layer, ?other]\<rparr>"
            and ex = extractTarArchive and dir = "''/tmp/x''" and f = host_fs, OF _ b]
  have 2: "extractPackageLayers extractTarArchive \<lparr>Layers = Inr [config_layer, ?other]\<rparr>
     ''/tmp/x'' host_fs = (None, host_fs)"
    by (simp add: config_layer_def)
  from extractPackageLayers_selects_payload_layers
         [where img = "\<lparr>Layers = Inr [config_layer, ?none]\<rparr>"
            and ex = extractTarArchive and dir = "''/tmp/x''" and f = host_fs, OF _ c] d
  have 3: "extractPackageLayers extractTarArchive \<lparr>Layers = Inr [config_layer, ?none]\<rparr>
     ''/tmp/x'' host_fs = (None, host_fs)"
    by (simp add: config_layer_def)
  from 1 2 3 show ?thesis by blast
qed

subsection \<open>The budget\<close>

lemma extractLayers_budget:
  "extractLayers ex ls dir f =
     extractLayers (\<lambda>reader destinationPath maxSize.
        ex reader destinationPath datadogPackageMaxSize) ls dir f"
  by (induction ls arbitrary: f) (auto split: sum.splits option.splits prod.splits)

lemma extractLayers_full_layers:
  assumes "\<forall>l \<in> set ls. is_payload l \<and> (\<exists>s. Uncompressed l = Inr s \<and>
             tar_size s = datadogPackageMaxSize \<and>
             (\<forall>f. \<exists>f'. ex s dir datadogPackageMaxSize f = (None, f') \<and>
                bytes_under dir f' = bytes_under dir f + tar_size s))"
  shows "\<exists>f'. extractLayers ex ls dir f = (None, f') \<and>
           bytes_under dir f' = bytes_under dir f + length ls * datadogPackageMaxSize"
  using assms
proof (induction ls arbitrary: f)
  case Nil
  then show ?case by simp
next
  case (Cons l ls)
  from Cons.prems obtain s where
    l: "is_payload l" "Uncompressed l = Inr s" "tar_size s = datadogPackageMaxSize"
       "\<forall>f. \<exists>f'. ex s dir datadogPackageMaxSize f = (None, f') \<and>
                bytes_under dir f' = bytes_under dir f + tar_size s"
    by auto
  from l(4) obtain f1 where
    f1: "ex s dir datadogPackageMaxSize f = (None, f1)"
        "bytes_under dir f1 = bytes_under dir f + tar_size s" by blast
  from Cons.prems have "\<forall>l \<in> set ls. is_payload l \<and> (\<exists>s. Uncompressed l = Inr s \<and>
             tar_size s = datadogPackageMaxSize \<and>
             (\<forall>f. \<exists>f'. ex s dir datadogPackageMaxSize f = (None, f') \<and>
                bytes_under dir f' = bytes_under dir f + tar_size s))" by simp
  from Cons.IH [OF this, of f1] obtain f' where
    f': "extractLayers ex ls dir f1 = (None, f')"
        "bytes_under dir f' = bytes_under dir f1 + length ls * datadogPackageMaxSize" by blast
  from l f1 f' show ?case by (simp add: is_payload_def)
qed

text \<open>
  Claim C10. Whatever budget argument the extraction of a stream looks at, it is given
  \<^verbatim>\<open>datadogPackageMaxSize\<close> for every payload layer, whatever was extracted before:
  replacing the argument by the constant changes nothing. So for an image of \<open>n\<close>
  payload layers of 3 GiB each, each of which the extraction accepts under a budget of
  3 GiB, the extraction succeeds and has written \<open>n\<close> times 3 GiB to the directory.
\<close>

theorem budget_is_per_layer:
  "extractPackageLayers ex img dir f =
     extractPackageLayers (\<lambda>reader destinationPath maxSize.
        ex reader destinationPath datadogPackageMaxSize) img dir f \<and>
   (Layers img = Inr ls \<and>
    (\<forall>l \<in> set ls. is_payload l \<and> (\<exists>s. Uncompressed l = Inr s \<and>
        tar_size s = datadogPackageMaxSize \<and>
        (\<forall>f. \<exists>f'. ex s dir datadogPackageMaxSize f = (None, f') \<and>
           bytes_under dir f' = bytes_under dir f + tar_size s))) \<longrightarrow>
    (\<exists>f'. extractPackageLayers ex img dir f = (None, f') \<and>
       bytes_under dir f' = bytes_under dir f + length ls * datadogPackageMaxSize))"
proof
  show "extractPackageLayers ex img dir f =
     extractPackageLayers (\<lambda>reader destinationPath maxSize.
        ex reader destinationPath datadogPackageMaxSize) img dir f"
    using extractLayers_budget [of ex _ dir f]
    by (simp add: extractPackageLayers_def split: sum.splits)
next
  show "Layers img = Inr ls \<and>
    (\<forall>l \<in> set ls. is_payload l \<and> (\<exists>s. Uncompressed l = Inr s \<and>
        tar_size s = datadogPackageMaxSize \<and>
        (\<forall>f. \<exists>f'. ex s dir datadogPackageMaxSize f = (None, f') \<and>
           bytes_under dir f' = bytes_under dir f + tar_size s))) \<longrightarrow>
    (\<exists>f'. extractPackageLayers ex img dir f = (None, f') \<and>
       bytes_under dir f' = bytes_under dir f + length ls * datadogPackageMaxSize)"
  proof
    assume h: "Layers img = Inr ls \<and>
      (\<forall>l \<in> set ls. is_payload l \<and> (\<exists>s. Uncompressed l = Inr s \<and>
        tar_size s = datadogPackageMaxSize \<and>
        (\<forall>f. \<exists>f'. ex s dir datadogPackageMaxSize f = (None, f') \<and>
           bytes_under dir f' = bytes_under dir f + tar_size s)))"
    then have "\<forall>l \<in> set ls. is_payload l \<and> (\<exists>s. Uncompressed l = Inr s \<and>
        tar_size s = datadogPackageMaxSize \<and>
        (\<forall>f. \<exists>f'. ex s dir datadogPackageMaxSize f = (None, f') \<and>
           bytes_under dir f' = bytes_under dir f + tar_size s))" by blast
    from extractLayers_full_layers [where ex = ex and dir = dir and ls = ls and f = f, OF this] h
    show "\<exists>f'. extractPackageLayers ex img dir f = (None, f') \<and>
       bytes_under dir f' = bytes_under dir f + length ls * datadogPackageMaxSize"
      by (simp add: extractPackageLayers_def)
  qed
qed

lemma under_tmp_x: "under ''/tmp/x'' ''/tmp/x/./bin/agent''"
  by (simp add: under_def)

text \<open>Two payload layers of 3 GiB each: 6 GiB are written.\<close>

theorem budget_is_per_layer_witness:
  "datadogPackageMaxSize = 3221225472 \<and>
   (\<exists>f'. extractPackageLayers extractTarArchive
            \<lparr>Layers = Inr [payload_of 3221225472, payload_of 3221225472]\<rparr> ''/tmp/x'' host_fs =
            (None, f') \<and>
          bytes_under ''/tmp/x'' f' = 6442450944)"
proof -
  have m: "datadogPackageMaxSize = 3221225472"
    by (simp add: datadogPackageMaxSize_def push_bit_eq_mult)
  have one: "\<forall>f. \<exists>f'. extractTarArchive [\<lparr>hdr_Name = ''./bin/agent'', hdr_Typeflag = TypeReg,
                 hdr_Linkname = [], hdr_Size = 3221225472\<rparr>] ''/tmp/x'' datadogPackageMaxSize f =
               (None, f') \<and>
             bytes_under ''/tmp/x'' f' = bytes_under ''/tmp/x'' f + 3221225472"
    by (simp add: extractTarArchive_def tar_size_def m entry_rejected_def is_absolute_def
        joinPath_def bytes_under_def under_tmp_x)
  have hyp: "Layers \<lparr>Layers = Inr [payload_of 3221225472, payload_of 3221225472]\<rparr> =
               Inr [payload_of 3221225472, payload_of 3221225472] \<and>
    (\<forall>l \<in> set [payload_of 3221225472, payload_of 3221225472].
        is_payload l \<and> (\<exists>s. Uncompressed l = Inr s \<and>
        tar_size s = datadogPackageMaxSize \<and>
        (\<forall>f. \<exists>f'. extractTarArchive s ''/tmp/x'' datadogPackageMaxSize f = (None, f') \<and>
           bytes_under ''/tmp/x'' f' = bytes_under ''/tmp/x'' f + tar_size s)))"
    using one by (simp add: is_payload_def payload_of_def tar_size_def m)
  from budget_is_per_layer [where ex = extractTarArchive and dir = "''/tmp/x''"
      and img = "\<lparr>Layers = Inr [payload_of 3221225472, payload_of 3221225472]\<rparr>"
      and ls = "[payload_of 3221225472, payload_of 3221225472]" and f = host_fs,
      THEN conjunct2, THEN mp, OF hyp]
  have "\<exists>f'. extractPackageLayers extractTarArchive
            \<lparr>Layers = Inr [payload_of 3221225472, payload_of 3221225472]\<rparr> ''/tmp/x'' host_fs =
            (None, f') \<and>
          bytes_under ''/tmp/x'' f' = bytes_under ''/tmp/x'' host_fs + 2 * datadogPackageMaxSize"
    by (simp add: mult_2)
  then show ?thesis by (simp add: m bytes_under_def host_fs_def)
qed

text \<open>
  Claim C4, as amended. The extraction of a stream rejects with \<^verbatim>\<open>PayloadTooLarge\<close>,
  leaving the file system as it is, a stream larger than the budget it is given. Then
  the budget of 3 GiB holds for each payload layer on its own: at the first payload layer
  whose uncompressed size exceeds 3 GiB, \<^verbatim>\<open>extractPackageLayers\<close> aborts with
  \<^verbatim>\<open>PayloadTooLarge\<close>, wrapped, and the file system is as the layers before it left it:
  nothing of that layer, or of a later one, is written.
\<close>

theorem budget_enforced_on_each_layer:
  assumes "Layers img = Inr (pre @ l # post)"
    and "extractLayers ex pre dir f = (None, f1)"
    and "is_payload l" and "Uncompressed l = Inr s" and "datadogPackageMaxSize < tar_size s"
    and "\<forall>s m f. m < tar_size s \<longrightarrow> ex s dir m f = (Some PayloadTooLarge, f)"
  shows "extractPackageLayers ex img dir f =
           (Some (Wrap ''could not extract layer'' PayloadTooLarge), f1)"
proof -
  from assms(5,6) have "ex s dir datadogPackageMaxSize f1 = (Some PayloadTooLarge, f1)"
    by blast
  with assms(1-4) show ?thesis
    by (simp add: extractPackageLayers_def extractLayers_append is_payload_def)
qed

text \<open>A payload layer of 3 GiB and one byte, after a payload layer of 4 bytes.\<close>

theorem budget_enforced_on_each_layer_witness:
  "extractPackageLayers extractTarArchive
     \<lparr>Layers = Inr [config_layer, payload_of 4, payload_of 3221225473, payload_of 5]\<rparr>
     ''/tmp/x'' host_fs =
   (Some (Wrap ''could not extract layer'' PayloadTooLarge),
    host_fs\<lparr>nodes := [(''/tmp/x/./bin/agent'', 4)]\<rparr>)"
proof -
  have pre: "extractLayers extractTarArchive [config_layer, payload_of 4] ''/tmp/x'' host_fs =
          (None, host_fs\<lparr>nodes := [(''/tmp/x/./bin/agent'', 4)]\<rparr>)"
    by (simp add: config_layer_def payload_of_def datadogPackageLayerMediaType_def
        extractTarArchive_def tar_size_def datadogPackageMaxSize_def push_bit_eq_mult
        entry_rejected_def is_absolute_def joinPath_def host_fs_def)
  have big: "datadogPackageMaxSize < tar_size [\<lparr>hdr_Name = ''./bin/agent'', hdr_Typeflag = TypeReg,
                 hdr_Linkname = [], hdr_Size = 3221225473\<rparr>]"
    by (simp add: tar_size_def datadogPackageMaxSize_def push_bit_eq_mult)
  have contract: "\<forall>s m f. m < tar_size s \<longrightarrow>
      extractTarArchive s ''/tmp/x'' m f = (Some PayloadTooLarge, f)"
    by (simp add: extractTarArchive_def)
  from budget_enforced_on_each_layer [where pre = "[config_layer, payload_of 4]"
      and l = "payload_of 3221225473" and post = "[payload_of 5]" and dir = "''/tmp/x''"
      and f = host_fs and img = "\<lparr>Layers = Inr [config_layer, payload_of 4,
        payload_of 3221225473, payload_of 5]\<rparr>" and ex = extractTarArchive,
      OF _ pre _ _ big contract]
  show ?thesis by (simp add: is_payload_def payload_of_def)
qed

text \<open>
  The claim as stated fails: the payload of two layers of 2 GiB each exceeds 3 GiB in
  total, and the extraction succeeds, with 4 GiB written.
\<close>

theorem total_budget_counterexample:
  "datadogPackageMaxSize < tar_size [\<lparr>hdr_Name = ''./bin/agent'', hdr_Typeflag = TypeReg,
       hdr_Linkname = [], hdr_Size = 2147483648\<rparr>] +
     tar_size [\<lparr>hdr_Name = ''./bin/agent'', hdr_Typeflag = TypeReg,
       hdr_Linkname = [], hdr_Size = 2147483648\<rparr>] \<and>
   fst (extractPackageLayers extractTarArchive
          \<lparr>Layers = Inr [payload_of 2147483648, payload_of 2147483648]\<rparr> ''/tmp/x'' host_fs) = None \<and>
   bytes_under ''/tmp/x'' (snd (extractPackageLayers extractTarArchive
          \<lparr>Layers = Inr [payload_of 2147483648, payload_of 2147483648]\<rparr> ''/tmp/x'' host_fs)) =
     4294967296"
  by (simp add: extractPackageLayers_def payload_of_def datadogPackageLayerMediaType_def
      extractTarArchive_def tar_size_def datadogPackageMaxSize_def push_bit_eq_mult
      entry_rejected_def is_absolute_def joinPath_def host_fs_def bytes_under_def under_tmp_x)

section \<open>The installer: staging\<close>

lemma joinPath_nonempty: "joinPath dir name \<noteq> []"
  by (simp add: joinPath_def)

lemma MkdirTemp_default:
  "temp_name f = Inr rnd \<Longrightarrow>
   MkdirTemp [] [] f =
     (Inr (joinPath (TempDir f) rnd),
      f\<lparr>device := (device f)(joinPath (TempDir f) rnd := device f (TempDir f)),
        nodes := nodes f @ [(joinPath (TempDir f) rnd, 0)]\<rparr>)"
  by (simp add: MkdirTemp_def prefixAndSuffix_def Let_def)

lemma MkdirTemp_Inr_nonempty:
  "MkdirTemp dir pattern f = (Inr tmpDir, f1) \<Longrightarrow> tmpDir \<noteq> []"
  by (auto simp: MkdirTemp_def Let_def joinPath_nonempty split: if_splits sum.splits)

lemma RemoveAll_removes:
  "path \<noteq> [] \<Longrightarrow> \<forall>n \<in> set (nodes (RemoveAll path f)). \<not> under path (fst n)"
  by (simp add: RemoveAll_def)

lemma extractLayers_dir_cong:
  "(\<And>s m f. ex s dir m f = ex' s dir m f) \<Longrightarrow>
   extractLayers ex ls dir f = extractLayers ex' ls dir f"
  by (induction ls arbitrary: f) (auto split: sum.splits option.splits prod.splits)

lemma extractPackageLayers_dir_cong:
  "(\<And>s m f. ex s dir m f = ex' s dir m f) \<Longrightarrow>
   extractPackageLayers ex img dir f = extractPackageLayers ex' img dir f"
  using extractLayers_dir_cong [of ex dir ex']
  by (simp add: extractPackageLayers_def split: sum.splits)

lemma installStable_unfold:
  "MkdirTemp [] [] f = (Inr tmpDir, f1) \<Longrightarrow>
   installStable i ex pkg version img (f, r) =
     (case (case extractPackageLayers ex img tmpDir f1 of
              (Some err, f2) \<Rightarrow> (Some (Wrap ''could not extract package layers'' err), (f2, r))
            | (None, f2) \<Rightarrow> Create (repositories i) pkg version tmpDir (f2, r)) of
        (res, (f3, r3)) \<Rightarrow> (res, (RemoveAll tmpDir f3, r3)))"
  by (simp add: installStable_def split: prod.splits option.splits)

lemma installExperiment_unfold:
  "MkdirTemp [] [] f = (Inr tmpDir, f1) \<Longrightarrow>
   installExperiment i ex pkg version img (f, r) =
     (case (case extractPackageLayers ex img tmpDir f1 of
              (Some err, f2) \<Rightarrow> (Some (Wrap ''could not extract package layers'' err), (f2, r))
            | (None, f2) \<Rightarrow>
                (case Get (repositories i) pkg (f2, r) of
                   Inl err \<Rightarrow> (Some (Wrap ''could not get repository'' err), (f2, r))
                 | Inr repository \<Rightarrow>
                     SetExperiment (repositories i) repository version tmpDir (f2, r))) of
        (res, (f3, r3)) \<Rightarrow> (res, (RemoveAll tmpDir f3, r3)))"
  by (simp add: installExperiment_def split: prod.splits option.splits sum.splits)

text \<open>
  Claim C5, as amended. Once the staging directory is created, both operations end with
  nothing left at or under it, whatever step fails. When the extraction fails, or for
  \<^verbatim>\<open>installExperiment\<close> when \<^verbatim>\<open>Get\<close> fails, the operation returns the error, wrapped; the
  state of the repository store is the one before the call, and the result does not
  depend on \<^verbatim>\<open>Create\<close> or \<^verbatim>\<open>SetExperiment\<close>: no transition is invoked. When the
  extraction succeeds (and \<^verbatim>\<open>Get\<close>, for \<^verbatim>\<open>installExperiment\<close>), the transition is invoked
  on the staging directory: the operation returns what the transition returns, its error
  if it fails, and the store is as the transition left it.
\<close>

theorem failed_install_removes_staging:
  assumes "MkdirTemp [] [] f = (Inr tmpDir, f1)"
  shows "(\<forall>n \<in> set (nodes (fst (snd (installStable i ex pkg version img (f, r))))).
            \<not> under tmpDir (fst n)) \<and>
         (\<forall>n \<in> set (nodes (fst (snd (installExperiment i ex pkg version img (f, r))))).
            \<not> under tmpDir (fst n)) \<and>
         (\<forall>err f2. extractPackageLayers ex img tmpDir f1 = (Some err, f2) \<longrightarrow>
            installStable i ex pkg version img (f, r) =
              (Some (Wrap ''could not extract package layers'' err), (RemoveAll tmpDir f2, r)) \<and>
            installExperiment i ex pkg version img (f, r) =
              (Some (Wrap ''could not extract package layers'' err), (RemoveAll tmpDir f2, r))) \<and>
         (\<forall>err f2. extractPackageLayers ex img tmpDir f1 = (None, f2) \<and>
              Get (repositories i) pkg (f2, r) = Inl err \<longrightarrow>
            installExperiment i ex pkg version img (f, r) =
              (Some (Wrap ''could not get repository'' err), (RemoveAll tmpDir f2, r))) \<and>
         (\<forall>f2 res f3 r3. extractPackageLayers ex img tmpDir f1 = (None, f2) \<and>
              Create (repositories i) pkg version tmpDir (f2, r) = (res, (f3, r3)) \<longrightarrow>
            installStable i ex pkg version img (f, r) = (res, (RemoveAll tmpDir f3, r3))) \<and>
         (\<forall>f2 h res f3 r3. extractPackageLayers ex img tmpDir f1 = (None, f2) \<and>
              Get (repositories i) pkg (f2, r) = Inr h \<and>
              SetExperiment (repositories i) h version tmpDir (f2, r) = (res, (f3, r3)) \<longrightarrow>
            installExperiment i ex pkg version img (f, r) = (res, (RemoveAll tmpDir f3, r3)))"
proof -
  from MkdirTemp_Inr_nonempty [OF assms] have ne: "tmpDir \<noteq> []" .
  have clean: "\<And>f3. \<forall>n \<in> set (nodes (RemoveAll tmpDir f3)). \<not> under tmpDir (fst n)"
    using RemoveAll_removes [OF ne] by blast
  have 1: "\<forall>n \<in> set (nodes (fst (snd (installStable i ex pkg version img (f, r))))).
            \<not> under tmpDir (fst n)"
    using clean by (simp add: installStable_unfold [OF assms] split: prod.splits)
  have 2: "\<forall>n \<in> set (nodes (fst (snd (installExperiment i ex pkg version img (f, r))))).
            \<not> under tmpDir (fst n)"
    using clean by (simp add: installExperiment_unfold [OF assms] split: prod.splits)
  have 3: "\<forall>err f2. extractPackageLayers ex img tmpDir f1 = (Some err, f2) \<longrightarrow>
            installStable i ex pkg version img (f, r) =
              (Some (Wrap ''could not extract package layers'' err), (RemoveAll tmpDir f2, r)) \<and>
            installExperiment i ex pkg version img (f, r) =
              (Some (Wrap ''could not extract package layers'' err), (RemoveAll tmpDir f2, r))"
    by (simp add: installStable_unfold [OF assms] installExperiment_unfold [OF assms])
  have 4: "\<forall>err f2. extractPackageLayers ex img tmpDir f1 = (None, f2) \<and>
              Get (repositories i) pkg (f2, r) = Inl err \<longrightarrow>
            installExperiment i ex pkg version img (f, r) =
              (Some (Wrap ''could not get repository'' err), (RemoveAll tmpDir f2, r))"
    by (simp add: installExperiment_unfold [OF assms])
  have 5: "\<forall>f2 res f3 r3. extractPackageLayers ex img tmpDir f1 = (None, f2) \<and>
              Create (repositories i) pkg version tmpDir (f2, r) = (res, (f3, r3)) \<longrightarrow>
            installStable i ex pkg version img (f, r) = (res, (RemoveAll tmpDir f3, r3))"
    by (simp add: installStable_unfold [OF assms])
  have 6: "\<forall>f2 h res f3 r3. extractPackageLayers ex img tmpDir f1 = (None, f2) \<and>
              Get (repositories i) pkg (f2, r) = Inr h \<and>
              SetExperiment (repositories i) h version tmpDir (f2, r) = (res, (f3, r3)) \<longrightarrow>
            installExperiment i ex pkg version img (f, r) = (res, (RemoveAll tmpDir f3, r3))"
    by (simp add: installExperiment_unfold [OF assms])
  from 1 2 3 4 5 6 show ?thesis by blast
qed

lemma MkdirTemp_host_fs:
  "MkdirTemp [] [] host_fs =
     (Inr ''/tmp/2218044517'',
      host_fs\<lparr>device := (device host_fs)(''/tmp/2218044517'' := 1),
              nodes := [(''/tmp/2218044517'', 0)]\<rparr>)"
  by (simp add: MkdirTemp_def prefixAndSuffix_def Let_def host_fs_def TempDir_def joinPath_def)

lemma extract_evil:
  "extractPackageLayers extractTarArchive \<lparr>Layers = Inr [payload_of 4, evil_layer]\<rparr>
     ''/tmp/2218044517''
     (host_fs\<lparr>device := (device host_fs)(''/tmp/2218044517'' := 1),
              nodes := [(''/tmp/2218044517'', 0)]\<rparr>) =
   (Some (Wrap ''could not extract layer'' PayloadMalicious),
    host_fs\<lparr>device := (device host_fs)(''/tmp/2218044517'' := 1),
            nodes := [(''/tmp/2218044517'', 0), (''/tmp/2218044517/./bin/agent'', 4)]\<rparr>)"
  by (simp add: extractPackageLayers_def payload_of_def evil_layer_def
      datadogPackageLayerMediaType_def extractTarArchive_def tar_size_def
      datadogPackageMaxSize_def push_bit_eq_mult entry_rejected_def is_absolute_def
      joinPath_def host_fs_def)

lemma extract_agent:
  "extractPackageLayers extractTarArchive \<lparr>Layers = Inr [payload_of 4]\<rparr>
     ''/tmp/2218044517''
     (host_fs\<lparr>device := (device host_fs)(''/tmp/2218044517'' := 1),
              nodes := [(''/tmp/2218044517'', 0)]\<rparr>) =
   (None,
    host_fs\<lparr>device := (device host_fs)(''/tmp/2218044517'' := 1),
            nodes := [(''/tmp/2218044517'', 0), (''/tmp/2218044517/./bin/agent'', 4)]\<rparr>)"
  by (simp add: extractPackageLayers_def payload_of_def
      datadogPackageLayerMediaType_def extractTarArchive_def tar_size_def
      datadogPackageMaxSize_def push_bit_eq_mult entry_rejected_def is_absolute_def
      joinPath_def host_fs_def)

lemma RemoveAll_staging:
  "RemoveAll ''/tmp/2218044517''
      (host_fs\<lparr>device := (device host_fs)(''/tmp/2218044517'' := 1),
            nodes := [(''/tmp/2218044517'', 0), (''/tmp/2218044517/./bin/agent'', 4)]\<rparr>) =
      host_fs\<lparr>device := (device host_fs)(''/tmp/2218044517'' := 1)\<rparr>"
  by (simp add: RemoveAll_def under_def host_fs_def)

text \<open>
  An image whose second payload layer holds the entry \<^verbatim>\<open>../etc/passwd\<close>, and a package
  that has no repository: the staging directory and what was extracted are gone, and the
  store has recorded no transition. Then a store whose transitions fail: the staging
  directory is gone as well, and the store has recorded the transition.
\<close>

theorem failed_install_removes_staging_witness:
  "installStable probe extractTarArchive ''agent'' ''7.50.0''
     \<lparr>Layers = Inr [payload_of 4, evil_layer]\<rparr> (host_fs, []) =
     (Some (Wrap ''could not extract package layers''
              (Wrap ''could not extract layer'' PayloadMalicious)),
      (host_fs\<lparr>device := (device host_fs)(''/tmp/2218044517'' := 1)\<rparr>, [])) \<and>
   installExperiment probe extractTarArchive ''agent'' ''7.50.0''
     \<lparr>Layers = Inr [payload_of 4, evil_layer]\<rparr> (host_fs, []) =
     (Some (Wrap ''could not extract package layers''
              (Wrap ''could not extract layer'' PayloadMalicious)),
      (host_fs\<lparr>device := (device host_fs)(''/tmp/2218044517'' := 1)\<rparr>, [])) \<and>
   installExperiment probe extractTarArchive ''agent-apm'' ''7.50.0''
     \<lparr>Layers = Inr [payload_of 4]\<rparr> (host_fs, []) =
     (Some (Wrap ''could not get repository'' (ErrorString ''no such repository'')),
      (host_fs\<lparr>device := (device host_fs)(''/tmp/2218044517'' := 1)\<rparr>, [])) \<and>
   installStable failing_store extractTarArchive ''agent'' ''7.50.0''
     \<lparr>Layers = Inr [payload_of 4]\<rparr> (host_fs, []) =
     (Some (ErrorString ''invalid cross-device link''),
      (host_fs\<lparr>device := (device host_fs)(''/tmp/2218044517'' := 1)\<rparr>,
       [(''/tmp/2218044517'', 1, 0)])) \<and>
   installExperiment failing_store extractTarArchive ''agent'' ''7.50.0''
     \<lparr>Layers = Inr [payload_of 4]\<rparr> (host_fs, []) =
     (Some (ErrorString ''invalid cross-device link''),
      (host_fs\<lparr>device := (device host_fs)(''/tmp/2218044517'' := 1)\<rparr>,
       [(''/tmp/2218044517'', 1, 0)]))"
proof -
  let ?f2 = "host_fs\<lparr>device := (device host_fs)(''/tmp/2218044517'' := 1),
            nodes := [(''/tmp/2218044517'', 0), (''/tmp/2218044517/./bin/agent'', 4)]\<rparr>"
  have get: "Get (repositories probe) ''agent-apm'' w = Inl (ErrorString ''no such repository'')"
    for w by (simp add: probe_def)
  have get': "Get (repositories failing_store) ''agent'' w = Inr ()"
    for w by (simp add: failing_store_def)
  have cr: "Create (repositories failing_store) ''agent'' ''7.50.0'' ''/tmp/2218044517'' (?f2, []) =
      (Some (ErrorString ''invalid cross-device link''), (?f2, [(''/tmp/2218044517'', 1, 0)]))"
    by (simp add: failing_store_def host_fs_def)
  have se: "SetExperiment (repositories failing_store) () ''7.50.0'' ''/tmp/2218044517'' (?f2, []) =
      (Some (ErrorString ''invalid cross-device link''), (?f2, [(''/tmp/2218044517'', 1, 0)]))"
    by (simp add: failing_store_def host_fs_def)
  note t1 = failed_install_removes_staging [OF MkdirTemp_host_fs, where i = probe
      and ex = extractTarArchive and pkg = "''agent''" and version = "''7.50.0''"
      and img = "\<lparr>Layers = Inr [payload_of 4, evil_layer]\<rparr>" and r = "[]"]
  note t2 = failed_install_removes_staging [OF MkdirTemp_host_fs, where i = probe
      and ex = extractTarArchive and pkg = "''agent-apm''" and version = "''7.50.0''"
      and img = "\<lparr>Layers = Inr [payload_of 4]\<rparr>" and r = "[]"]
  note t3 = failed_install_removes_staging [OF MkdirTemp_host_fs, where i = failing_store
      and ex = extractTarArchive and pkg = "''agent''" and version = "''7.50.0''"
      and img = "\<lparr>Layers = Inr [payload_of 4]\<rparr>" and r = "[]"]
  from t1 extract_evil RemoveAll_staging
  have a: "installStable probe extractTarArchive ''agent'' ''7.50.0''
     \<lparr>Layers = Inr [payload_of 4, evil_layer]\<rparr> (host_fs, []) =
     (Some (Wrap ''could not extract package layers''
              (Wrap ''could not extract layer'' PayloadMalicious)),
      (host_fs\<lparr>device := (device host_fs)(''/tmp/2218044517'' := 1)\<rparr>, [])) \<and>
   installExperiment probe extractTarArchive ''agent'' ''7.50.0''
     \<lparr>Layers = Inr [payload_of 4, evil_layer]\<rparr> (host_fs, []) =
     (Some (Wrap ''could not extract package layers''
              (Wrap ''could not extract layer'' PayloadMalicious)),
      (host_fs\<lparr>device := (device host_fs)(''/tmp/2218044517'' := 1)\<rparr>, []))"
    by simp
  from t2 extract_agent get RemoveAll_staging
  have b: "installExperiment probe extractTarArchive ''agent-apm'' ''7.50.0''
     \<lparr>Layers = Inr [payload_of 4]\<rparr> (host_fs, []) =
     (Some (Wrap ''could not get repository'' (ErrorString ''no such repository'')),
      (host_fs\<lparr>device := (device host_fs)(''/tmp/2218044517'' := 1)\<rparr>, []))"
    by simp
  from t3 extract_agent cr RemoveAll_staging
  have c: "installStable failing_store extractTarArchive ''agent'' ''7.50.0''
     \<lparr>Layers = Inr [payload_of 4]\<rparr> (host_fs, []) =
     (Some (ErrorString ''invalid cross-device link''),
      (host_fs\<lparr>device := (device host_fs)(''/tmp/2218044517'' := 1)\<rparr>,
       [(''/tmp/2218044517'', 1, 0)]))"
    by simp
  from t3 extract_agent get' se RemoveAll_staging
  have d: "installExperiment failing_store extractTarArchive ''agent'' ''7.50.0''
     \<lparr>Layers = Inr [payload_of 4]\<rparr> (host_fs, []) =
     (Some (ErrorString ''invalid cross-device link''),
      (host_fs\<lparr>device := (device host_fs)(''/tmp/2218044517'' := 1)\<rparr>,
       [(''/tmp/2218044517'', 1, 0)]))"
    by simp
  from a b c d show ?thesis by blast
qed

text \<open>
  The claim as stated fails: with a store whose transitions fail, the step that fails
  after the staging directory is created is the transition itself. Both operations return
  its error, and the store has recorded that \<^verbatim>\<open>Create\<close> and \<^verbatim>\<open>SetExperiment\<close> were invoked
  on the staging directory.
\<close>

theorem failed_transition_counterexample:
  "fst (installStable failing_store extractTarArchive ''agent'' ''7.50.0''
          \<lparr>Layers = Inr [payload_of 4]\<rparr> (host_fs, [])) =
     Some (ErrorString ''invalid cross-device link'') \<and>
   snd (snd (installStable failing_store extractTarArchive ''agent'' ''7.50.0''
          \<lparr>Layers = Inr [payload_of 4]\<rparr> (host_fs, []))) = [(''/tmp/2218044517'', 1, 0)] \<and>
   fst (installExperiment failing_store extractTarArchive ''agent'' ''7.50.0''
          \<lparr>Layers = Inr [payload_of 4]\<rparr> (host_fs, [])) =
     Some (ErrorString ''invalid cross-device link'') \<and>
   snd (snd (installExperiment failing_store extractTarArchive ''agent'' ''7.50.0''
          \<lparr>Layers = Inr [payload_of 4]\<rparr> (host_fs, []))) = [(''/tmp/2218044517'', 1, 0)]"
  by (simp add: installStable_def installExperiment_def MkdirTemp_def prefixAndSuffix_def
      Let_def TempDir_def RemoveAll_def failing_store_def extractPackageLayers_def payload_of_def
      datadogPackageLayerMediaType_def extractTarArchive_def tar_size_def
      datadogPackageMaxSize_def push_bit_eq_mult entry_rejected_def is_absolute_def
      joinPath_def host_fs_def)

text \<open>
  Claim C3, as amended. When the creation of the temporary directory succeeds, the
  staging directory is a new directory of the default directory for temporary files
  (\<^verbatim>\<open>$TMPDIR\<close>, or \<^verbatim>\<open>/tmp\<close>), on the file system of that directory, whatever the root of
  the repositories is; the devices of the other directories are unchanged. It is the only
  directory that the extraction and the transition of the repository are given: what
  the extraction and \<^verbatim>\<open>Create\<close> or \<^verbatim>\<open>SetExperiment\<close> would do with another directory
  (\<open>X\<close>, \<open>Y\<close>, \<open>Z\<close>) is irrelevant.
\<close>

theorem staging_is_in_TempDir:
  assumes "temp_name f = Inr rnd"
  shows "\<exists>f1. MkdirTemp [] [] f = (Inr (joinPath (TempDir f) rnd), f1) \<and>
           device f1 (joinPath (TempDir f) rnd) = device f (TempDir f) \<and>
           (\<forall>root. root \<noteq> joinPath (TempDir f) rnd \<longrightarrow> device f1 root = device f root) \<and>
           installStable i ex pkg version img (f, r) =
             installStable
               (i\<lparr>repositories := (repositories i)\<lparr>Create := \<lambda>p v d.
                    if d = joinPath (TempDir f) rnd then Create (repositories i) p v d
                    else X p v d\<rparr>\<rparr>)
               (\<lambda>s d. if d = joinPath (TempDir f) rnd then ex s d else Y s d)
               pkg version img (f, r) \<and>
           installExperiment i ex pkg version img (f, r) =
             installExperiment
               (i\<lparr>repositories := (repositories i)\<lparr>SetExperiment := \<lambda>h v d.
                    if d = joinPath (TempDir f) rnd then SetExperiment (repositories i) h v d
                    else Z h v d\<rparr>\<rparr>)
               (\<lambda>s d. if d = joinPath (TempDir f) rnd then ex s d else Y s d)
               pkg version img (f, r)"
proof -
  let ?tmpDir = "joinPath (TempDir f) rnd"
  let ?f1 = "f\<lparr>device := (device f)(?tmpDir := device f (TempDir f)),
               nodes := nodes f @ [(?tmpDir, 0)]\<rparr>"
  let ?ex' = "\<lambda>s d. if d = ?tmpDir then ex s d else Y s d"
  have mk: "MkdirTemp [] [] f = (Inr ?tmpDir, ?f1)"
    by (rule MkdirTemp_default [OF assms])
  have ex: "extractPackageLayers ex img ?tmpDir f1 = extractPackageLayers ?ex' img ?tmpDir f1"
    for f1 by (rule extractPackageLayers_dir_cong) simp
  have st: "installStable i ex pkg version img (f, r) =
             installStable
               (i\<lparr>repositories := (repositories i)\<lparr>Create := \<lambda>p v d.
                    if d = ?tmpDir then Create (repositories i) p v d else X p v d\<rparr>\<rparr>)
               ?ex' pkg version img (f, r)"
    by (simp add: installStable_unfold [OF mk] ex [symmetric] split: prod.splits option.splits)
  have xp: "installExperiment i ex pkg version img (f, r) =
             installExperiment
               (i\<lparr>repositories := (repositories i)\<lparr>SetExperiment := \<lambda>h v d.
                    if d = ?tmpDir then SetExperiment (repositories i) h v d else Z h v d\<rparr>\<rparr>)
               ?ex' pkg version img (f, r)"
    by (simp add: installExperiment_unfold [OF mk] ex [symmetric]
        split: prod.splits option.splits sum.splits)
  have dv: "device ?f1 ?tmpDir = device f (TempDir f) \<and>
           (\<forall>root. root \<noteq> ?tmpDir \<longrightarrow> device ?f1 root = device f root)"
    by simp
  from mk dv st xp show ?thesis by blast
qed

text \<open>On the host where \<^verbatim>\<open>/tmp\<close> is a file system of its own.\<close>

theorem staging_is_in_TempDir_witness:
  "TempDir host_fs = ''/tmp'' \<and>
   (\<exists>f1. MkdirTemp [] [] host_fs = (Inr ''/tmp/2218044517'', f1) \<and>
      device f1 ''/tmp/2218044517'' = device host_fs ''/tmp'' \<and>
      device f1 ''/opt/datadog-packages'' = device host_fs ''/opt/datadog-packages'')"
proof -
  have tn: "temp_name host_fs = Inr ''2218044517''" by (simp add: host_fs_def)
  have td: "TempDir host_fs = ''/tmp''" by (simp add: TempDir_def host_fs_def)
  have jp: "joinPath ''/tmp'' ''2218044517'' = ''/tmp/2218044517''" by (simp add: joinPath_def)
  from staging_is_in_TempDir [OF tn, where i = probe and ex = extractTarArchive
      and pkg = "''agent''" and version = "''7.50.0''" and img = "\<lparr>Layers = Inr [payload_of 4]\<rparr>"
      and r = "[]" and X = "Create (repositories probe)" and Y = extractTarArchive
      and Z = "SetExperiment (repositories probe)"] td jp
  have "\<exists>f1. MkdirTemp [] [] host_fs = (Inr ''/tmp/2218044517'', f1) \<and>
      device f1 ''/tmp/2218044517'' = device host_fs ''/tmp'' \<and>
      device f1 ''/opt/datadog-packages'' = device host_fs ''/opt/datadog-packages''"
    by auto
  with td show ?thesis by blast
qed

text \<open>
  The claim as stated fails: on that host the store, which records what it is given, gets
  the staging directory \<^verbatim>\<open>/tmp/2218044517\<close> on device 1 while its root is on device 0.
\<close>

theorem staging_not_on_repository_filesystem_counterexample:
  "snd (snd (installStable probe extractTarArchive ''agent'' ''7.50.0''
               \<lparr>Layers = Inr [payload_of 4]\<rparr> (host_fs, []))) =
     [(''/tmp/2218044517'', 1, 0)] \<and>
   snd (snd (installExperiment probe extractTarArchive ''agent'' ''7.50.0''
               \<lparr>Layers = Inr [payload_of 4]\<rparr> (host_fs, []))) =
     [(''/tmp/2218044517'', 1, 0)]"
  by (simp add: installStable_def installExperiment_def MkdirTemp_def prefixAndSuffix_def
      Let_def TempDir_def RemoveAll_def probe_def extractPackageLayers_def payload_of_def
      datadogPackageLayerMediaType_def extractTarArchive_def tar_size_def
      datadogPackageMaxSize_def push_bit_eq_mult entry_rejected_def is_absolute_def
      joinPath_def host_fs_def)

end
